theory Spec2Isabelle
  imports Complex_Main
begin

section \<open>JavaScript values, the platform and the process\<close>

text \<open>
  A value produced by \<^verbatim>\<open>JSON.parse\<close>. JavaScript numbers are IEEE doubles; the model
  takes them as exact rationals, which agrees with the code on the integer second and
  millisecond counts the token fields hold. An object is the list of its own properties,
  read with \<open>map_of\<close>; \<^verbatim>\<open>undefined\<close> (an absent property) is the \<open>None\<close> of an option.
  Strings are lists of 8-bit characters.
\<close>

datatype json =
    JNull
  | JBool bool
  | JNum rat
  | JStr string
  | JArr "json list"
  | JObj "(string \<times> json) list"

text \<open>JavaScript truthiness, as used by \<^verbatim>\<open>!x\<close>, \<^verbatim>\<open>x && y\<close> and \<^verbatim>\<open>x || y\<close>.\<close>

fun truthy :: "json \<Rightarrow> bool" where
  "truthy JNull = False"
| "truthy (JBool b) = b"
| "truthy (JNum n) = (n \<noteq> 0)"
| "truthy (JStr s) = (s \<noteq> [])"
| "truthy (JArr xs) = True"
| "truthy (JObj kvs) = True"

fun truthy_opt :: "json option \<Rightarrow> bool" where
  "truthy_opt None = False"
| "truthy_opt (Some v) = truthy v"

text \<open>
  Built-ins of the JavaScript runtime and primitives of the third-party packages
  (\<^verbatim>\<open>jsonwebtoken\<close>, \<^verbatim>\<open>zod\<close>, \<^verbatim>\<open>bcrypt\<close>) that the repository calls but does not contain.
  They are parameters of the model: every theorem below holds for whatever these
  functions compute, unless it states an assumption about them. \<open>None\<close> stands for a
  thrown exception (\<open>atob\<close>, \<open>JSON_parse\<close>, \<open>jwt_decode\<close>) or for \<^verbatim>\<open>NaN\<close>
  (\<open>ToNumber\<close>, \<open>parseInt\<close>).
  \<^item> \<open>atob\<close>, \<open>JSON_parse\<close>, \<open>parseInt\<close>: the built-ins of these names;
    \<open>ToNumber\<close>: the number conversion of a value that is not a number.
  \<^item> \<open>b64url_json\<close>: base64url of \<^verbatim>\<open>JSON.stringify\<close>, how the package writes the header
    and the payload segment; \<open>jwt_decode\<close>: the package's \<^verbatim>\<open>decode(token, {complete: true})\<close>,
    giving header and payload; \<open>hmac_sign\<close>: the base64url HMAC signature of an input
    under an algorithm name and a secret.
  \<^item> \<open>is_email\<close> and \<open>zod_issues\<close>: zod's e-mail test and the issues it reports for a
    rejected body; \<open>bcrypt_compare\<close>: the comparison of a password with a hash.
\<close>

record platform =
  atob :: "string \<Rightarrow> string option"
  JSON_parse :: "string \<Rightarrow> json option"
  ToNumber :: "json \<Rightarrow> rat option"
  parseInt :: "string \<Rightarrow> int option"
  b64url_json :: "json \<Rightarrow> string"
  jwt_decode :: "string \<Rightarrow> (json \<times> json) option"
  hmac_sign :: "string \<Rightarrow> string \<Rightarrow> string \<Rightarrow> string"
  is_email :: "string \<Rightarrow> bool"
  zod_issues :: "json \<Rightarrow> json"
  bcrypt_compare :: "string \<Rightarrow> string \<Rightarrow> bool"

text \<open>
  The process-wide state a function can read: the environment variables
  (\<^verbatim>\<open>process.env\<close>), the wall clock \<^verbatim>\<open>Date.now()\<close> in milliseconds and the monotonic
  millisecond clock the \<^verbatim>\<open>limiter\<close> package reads.
\<close>

record world =
  JWT_SECRET :: "string option"
  JWT_EXPIRES_IN :: "string option"
  NODE_ENV :: "string option"
  Date_now :: int
  getMilliseconds :: int

text \<open>
  An incoming request: the path of its URL, its headers by lower-case name (as
  \<^verbatim>\<open>Headers.get\<close> looks them up), its cookies by name and the result of
  \<^verbatim>\<open>request.json()\<close> (\<open>None\<close> when that throws).
\<close>

record request =
  pathname :: string
  headers :: "string \<rightharpoonup> string"
  cookies :: "string \<rightharpoonup> string"
  json_body :: "json option"

text \<open>
  \<^verbatim>\<open>interface JWTPayload { sub; email; name?; iat?; exp? }\<close>. TypeScript's field types are
  erased at run time, so each field holds a JSON value or is undefined.
\<close>

record JWTPayload =
  sub :: "json option"
  email :: "json option"
  name :: "json option"
  iat :: "json option"
  exp_claim :: "json option"

section \<open>String helpers\<close>

text \<open>\<^verbatim>\<open>s.split(c)\<close> for a one-character separator: never empty, \<^verbatim>\<open>"".split(".") = [""]\<close>.\<close>

fun split_on :: "char \<Rightarrow> string \<Rightarrow> string list" where
  "split_on c [] = [[]]"
| "split_on c (x # xs) =
     (if x = c then [] # split_on c xs
      else (case split_on c xs of [] \<Rightarrow> [[x]] | p # ps \<Rightarrow> (x # p) # ps))"

definition startsWith :: "string \<Rightarrow> string \<Rightarrow> bool" where
  "startsWith s p = (take (length p) s = p)"

text \<open>\<^verbatim>\<open>s.replace(/a/g, b)\<close> for single characters.\<close>

definition replace_all :: "char \<Rightarrow> char \<Rightarrow> string \<Rightarrow> string" where
  "replace_all a b s = map (\<lambda>c. if c = a then b else c) s"

text \<open>\<^verbatim>\<open>s.padEnd(n, "=")\<close>.\<close>

definition padEnd :: "string \<Rightarrow> nat \<Rightarrow> string" where
  "padEnd s n = s @ replicate (n - length s) CHR ''=''"

section \<open>The constrained verifier (edge-jwt.ts)\<close>

text \<open>
  \<^verbatim>\<open>Date.now() >= payload.exp * 1000\<close> for a truthy \<^verbatim>\<open>payload.exp\<close>: a number is used
  as it is, any other value goes through JavaScript's number conversion, and a
  comparison with \<^verbatim>\<open>NaN\<close> is false. The product is exact here; in doubles it is rounded,
  which can matter for a fractional \<^verbatim>\<open>exp\<close> only.
\<close>

definition exp_reached :: "platform \<Rightarrow> world \<Rightarrow> json \<Rightarrow> bool" where
  "exp_reached P w e =
     (case (case e of JNum n \<Rightarrow> Some n | _ \<Rightarrow> ToNumber P e) of
        None \<Rightarrow> False
      | Some n \<Rightarrow> of_int (Date_now w) \<ge> n * 1000)"

text \<open>
  \<^verbatim>\<open>simpleVerifyToken\<close>. The whole body is inside \<^verbatim>\<open>try { ... } catch { return null }\<close>,
  so a throwing \<^verbatim>\<open>atob\<close> or \<^verbatim>\<open>JSON.parse\<close> gives \<open>None\<close>. A payload that is not an
  object also gives \<open>None\<close>: reading \<^verbatim>\<open>.sub\<close> of \<^verbatim>\<open>null\<close> throws, and a number, boolean,
  string or array has no \<^verbatim>\<open>email\<close> property, so the required-fields check fails.
\<close>

definition simpleVerifyToken :: "platform \<Rightarrow> world \<Rightarrow> string \<Rightarrow> JWTPayload option" where
  "simpleVerifyToken P w token =
     (let parts = split_on CHR ''.'' token in
      if length parts \<noteq> 3 then None
      else
        let base64 = replace_all CHR ''_'' CHR ''/'' (replace_all CHR ''-'' CHR ''+'' (parts ! 1));
            paddedBase64 = padEnd base64 (length base64 + (4 - length base64 mod 4) mod 4)
        in case atob P paddedBase64 of
             None \<Rightarrow> None
           | Some text \<Rightarrow>
               (case JSON_parse P text of
                  Some (JObj payload) \<Rightarrow>
                    if \<not> truthy_opt (map_of payload ''sub'') \<or> \<not> truthy_opt (map_of payload ''email'')
                    then None
                    else if (case map_of payload ''exp'' of
                               None \<Rightarrow> False
                             | Some e \<Rightarrow> truthy e \<and> exp_reached P w e)
                    then None
                    else Some \<lparr> sub = map_of payload ''sub'',
                                email = map_of payload ''email'',
                                name = map_of payload ''name'',
                                iat = map_of payload ''iat'',
                                exp_claim = map_of payload ''exp'' \<rparr>
                | _ \<Rightarrow> None))"

section \<open>Reading the session cookie (lib/auth/middleware.ts, cookies.ts)\<close>

definition TOKEN_NAME :: string where
  "TOKEN_NAME = ''auth_token''"

text \<open>\<^verbatim>\<open>request.cookies.get(TOKEN_NAME)?.value || null\<close>: an empty value counts as absent.\<close>

definition getAuthCookie :: "request \<Rightarrow> string option" where
  "getAuthCookie request =
     (case cookies request TOKEN_NAME of
        None \<Rightarrow> None
      | Some v \<Rightarrow> if v = [] then None else Some v)"

definition isAuthenticated :: "platform \<Rightarrow> world \<Rightarrow> request \<Rightarrow> bool" where
  "isAuthenticated P w request =
     (case getAuthCookie request of
        None \<Rightarrow> False
      | Some token \<Rightarrow> simpleVerifyToken P w token \<noteq> None)"

section \<open>The route guard (middleware.ts)\<close>

datatype guard_result = NextResponse_next | NextResponse_redirect string

definition protectedRoutes :: "string list" where
  "protectedRoutes = [''/dashboard'']"

definition authRoutes :: "string list" where
  "authRoutes = [''/'', ''/signin'', ''/signup'']"

definition middleware :: "platform \<Rightarrow> world \<Rightarrow> request \<Rightarrow> guard_result" where
  "middleware P w request =
     (if startsWith (pathname request) ''/api/'' then NextResponse_next
      else
        let userIsAuthenticated = isAuthenticated P w request;
            isProtectedRoute =
              list_ex (\<lambda>route. pathname request = route \<or> startsWith (pathname request) (route @ ''/''))
                protectedRoutes;
            isAuthRoute =
              list_ex (\<lambda>route. pathname request = route \<or> startsWith (pathname request) (route @ ''/''))
                authRoutes
        in if isAuthRoute \<and> userIsAuthenticated then NextResponse_redirect ''/dashboard''
           else if isProtectedRoute \<and> \<not> userIsAuthenticated then NextResponse_redirect ''/signin''
           else NextResponse_next)"

section \<open>More string helpers\<close>

text \<open>Whitespace stripped by \<^verbatim>\<open>String.prototype.trim\<close>, within the 8-bit characters of the model.\<close>

definition is_space :: "char \<Rightarrow> bool" where
  "is_space c = (c = CHR '' '' \<or> c = CHR 0x09 \<or> c = CHR 0x0A \<or> c = CHR 0x0B
                 \<or> c = CHR 0x0C \<or> c = CHR 0x0D \<or> c = CHR 0xA0)"

definition trim :: "string \<Rightarrow> string" where
  "trim s = rev (dropWhile is_space (rev (dropWhile is_space s)))"

text \<open>\<^verbatim>\<open>s.split(c)[0]\<close>.\<close>

definition first_part :: "char \<Rightarrow> string \<Rightarrow> string" where
  "first_part c s = (case split_on c s of [] \<Rightarrow> [] | p # ps \<Rightarrow> p)"

section \<open>The token codec (jwt.ts) over the jsonwebtoken package\<close>

datatype error = JWT_SECRET_not_defined | Library_error | Store_error

text \<open>Property access \<^verbatim>\<open>v.k\<close> on a decoded object; a value that is not an object has no
  own property.\<close>

fun obj_prop :: "json \<Rightarrow> string \<Rightarrow> json option" where
  "obj_prop (JObj kvs) k = map_of kvs k"
| "obj_prop v k = None"

fun is_num_or_undefined :: "json option \<Rightarrow> bool" where
  "is_num_or_undefined None = True"
| "is_num_or_undefined (Some (JNum n)) = True"
| "is_num_or_undefined (Some v) = False"

text \<open>The own enumerable properties of a payload object that \<^verbatim>\<open>JSON.stringify\<close> keeps:
  undefined fields are dropped.\<close>

definition defined_fields :: "JWTPayload \<Rightarrow> (string \<times> json) list" where
  "defined_fields p =
     (case sub p of None \<Rightarrow> [] | Some v \<Rightarrow> [(''sub'', v)]) @
     (case email p of None \<Rightarrow> [] | Some v \<Rightarrow> [(''email'', v)]) @
     (case name p of None \<Rightarrow> [] | Some v \<Rightarrow> [(''name'', v)])"

definition jose_header :: json where
  "jose_header = JObj [(''alg'', JStr ''HS256''), (''typ'', JStr ''JWT'')]"

text \<open>
  \<^verbatim>\<open>jwt.sign(payload, secret, { expiresIn })\<close> of the jsonwebtoken package, which is not
  part of the repository; modelled after the package's documented behaviour for an
  object payload, a shared-secret string and the default algorithm HS256:
  \<^item> it throws when \<^verbatim>\<open>expiresIn\<close> is not an integer (\<^verbatim>\<open>NaN\<close>), when \<^verbatim>\<open>iat\<close> or
    \<^verbatim>\<open>exp\<close> of the payload is defined and not a number, and when the payload already
    has an \<^verbatim>\<open>exp\<close>;
  \<^item> \<^verbatim>\<open>iat\<close> is \<^verbatim>\<open>payload.iat || Math.floor(Date.now() / 1000)\<close> and \<^verbatim>\<open>exp\<close> is
    \<^verbatim>\<open>iat + expiresIn\<close>;
  \<^item> the token is \<^verbatim>\<open>base64url(header) . base64url(payload) . signature\<close>, the signature
    being the HMAC of the first two segments (with their dot) under the secret.
  The secret is taken as plain key material for HMAC. \<open>None\<close> stands for a thrown
  error.
\<close>

definition jwt_sign :: "platform \<Rightarrow> world \<Rightarrow> JWTPayload \<Rightarrow> string \<Rightarrow> int option \<Rightarrow> string option" where
  "jwt_sign P w payload secret expiresIn =
     (case expiresIn of
        None \<Rightarrow> None
      | Some n \<Rightarrow>
          if \<not> is_num_or_undefined (iat payload) \<or> \<not> is_num_or_undefined (exp_claim payload) then None
          else if exp_claim payload \<noteq> None then None
          else
            let timestamp =
                  (case iat payload of
                     Some (JNum t) \<Rightarrow> if t \<noteq> 0 then t else of_int (Date_now w div 1000)
                   | _ \<Rightarrow> of_int (Date_now w div 1000));
                claims = JObj (defined_fields payload @
                               [(''iat'', JNum timestamp), (''exp'', JNum (timestamp + of_int n))]);
                securedInput = b64url_json P jose_header @ ''.'' @ b64url_json P claims
            in Some (securedInput @ ''.'' @ hmac_sign P ''HS256'' secret securedInput))"

text \<open>
  \<^verbatim>\<open>jwt.verify(token, secret)\<close> of the jsonwebtoken package, modelled after the package's
  documented behaviour when no options are given and the key is a shared-secret string.
  It throws (\<open>None\<close>) unless
  \<^item> the token is a non-empty string of three dot-separated segments that decodes
    (\<open>jwt_decode\<close>, the package's own \<^verbatim>\<open>decode(token, {complete: true})\<close>) to a header and
    a payload;
  \<^item> the signature segment is not blank, the header's \<^verbatim>\<open>alg\<close> is one of the HMAC
    algorithms, and the signature segment is the HMAC of the first two segments;
  \<^item> \<^verbatim>\<open>nbf\<close>, when defined, is a number not after the current second;
  \<^item> \<^verbatim>\<open>exp\<close>, when defined, is a number and the current second is before it.
  It then returns the payload. It looks at no other claim: \<^verbatim>\<open>sub\<close>, \<^verbatim>\<open>iss\<close>, \<^verbatim>\<open>aud\<close> and
  \<^verbatim>\<open>jti\<close> are checked only against options, and \<^verbatim>\<open>verifyToken\<close> passes none.
\<close>

definition jwt_verify :: "platform \<Rightarrow> world \<Rightarrow> string \<Rightarrow> string \<Rightarrow> json option" where
  "jwt_verify P w token secret =
     (if token = [] then None
      else
        let parts = split_on CHR ''.'' token in
        if length parts \<noteq> 3 then None
        else
          case jwt_decode P token of
            None \<Rightarrow> None
          | Some (header, payload) \<Rightarrow>
              if trim (parts ! 2) = [] then None
              else
                (case obj_prop header ''alg'' of
                   Some (JStr alg) \<Rightarrow>
                     if alg \<notin> set [''HS256'', ''HS384'', ''HS512''] then None
                     else if parts ! 2 \<noteq> hmac_sign P alg secret (parts ! 0 @ ''.'' @ parts ! 1) then None
                     else if payload = JNull then None
                     else
                       let clockTimestamp = Date_now w div 1000 in
                       (case obj_prop payload ''nbf'' of
                          Some (JNum nbf) \<Rightarrow>
                            if nbf > of_int clockTimestamp then None
                            else
                              (case obj_prop payload ''exp'' of
                                 None \<Rightarrow> Some payload
                               | Some (JNum e) \<Rightarrow>
                                   if of_int clockTimestamp \<ge> e then None else Some payload
                               | Some v \<Rightarrow> None)
                        | Some v \<Rightarrow> None
                        | None \<Rightarrow>
                            (case obj_prop payload ''exp'' of
                               None \<Rightarrow> Some payload
                             | Some (JNum e) \<Rightarrow>
                                 if of_int clockTimestamp \<ge> e then None else Some payload
                             | Some v \<Rightarrow> None))
                 | _ \<Rightarrow> None))"

text \<open>\<^verbatim>\<open>process.env.JWT_EXPIRES_IN || '86400'\<close>, then \<^verbatim>\<open>parseInt\<close>: read by \<^verbatim>\<open>createToken\<close>,
  by \<^verbatim>\<open>COOKIE_MAX_AGE\<close> in cookies.ts and by the login handler.\<close>

definition expires_in_seconds :: "platform \<Rightarrow> world \<Rightarrow> int option" where
  "expires_in_seconds P w =
     parseInt P (case JWT_EXPIRES_IN w of
                   None \<Rightarrow> ''86400''
                 | Some s \<Rightarrow> if s = [] then ''86400'' else s)"

text \<open>\<^verbatim>\<open>createToken\<close>: \<open>Inl\<close> is a thrown error.\<close>

definition createToken :: "platform \<Rightarrow> world \<Rightarrow> JWTPayload \<Rightarrow> error + string" where
  "createToken P w payload =
     (case JWT_SECRET w of
        None \<Rightarrow> Inl JWT_SECRET_not_defined
      | Some secret \<Rightarrow>
          if secret = [] then Inl JWT_SECRET_not_defined
          else (case jwt_sign P w payload secret (expires_in_seconds P w) of
                  None \<Rightarrow> Inl Library_error
                | Some token \<Rightarrow> Inr token))"

text \<open>\<^verbatim>\<open>verifyToken\<close>: \<open>Inl\<close> is the thrown configuration error, \<open>Inr None\<close> is \<^verbatim>\<open>null\<close>
  (whatever \<^verbatim>\<open>jwt.verify\<close> throws is caught), \<open>Inr (Some d)\<close> the decoded payload.\<close>

definition verifyToken :: "platform \<Rightarrow> world \<Rightarrow> string \<Rightarrow> error + json option" where
  "verifyToken P w token =
     (case JWT_SECRET w of
        None \<Rightarrow> Inl JWT_SECRET_not_defined
      | Some secret \<Rightarrow>
          if secret = [] then Inl JWT_SECRET_not_defined
          else Inr (jwt_verify P w token secret))"

section \<open>Responses and the session cookie manager (cookies.ts)\<close>

record cookie =
  cvalue :: string
  httpOnly :: bool
  secure :: bool
  maxAge :: "int option"
  path :: string
  sameSite :: string

text \<open>A response: its status, its JSON body and the cookies set on it, by name.\<close>

record response =
  status :: nat
  body :: json
  res_cookies :: "string \<rightharpoonup> cookie"

definition NextResponse_json :: "json \<Rightarrow> nat \<Rightarrow> response" where
  "NextResponse_json b s = \<lparr> status = s, body = b, res_cookies = Map.empty \<rparr>"

definition cookies_set :: "string \<Rightarrow> cookie \<Rightarrow> response \<Rightarrow> response" where
  "cookies_set n c r = r\<lparr> res_cookies := (res_cookies r)(n \<mapsto> c) \<rparr>"

definition COOKIE_MAX_AGE :: "platform \<Rightarrow> world \<Rightarrow> int option" where
  "COOKIE_MAX_AGE P w = expires_in_seconds P w"

definition setAuthCookie :: "platform \<Rightarrow> world \<Rightarrow> string \<Rightarrow> response \<Rightarrow> response" where
  "setAuthCookie P w token r =
     cookies_set TOKEN_NAME
       \<lparr> cvalue = token,
         httpOnly = True,
         secure = (NODE_ENV w = Some ''production''),
         maxAge = COOKIE_MAX_AGE P w,
         path = ''/'',
         sameSite = ''lax'' \<rparr> r"

section \<open>The rate governor (rate-limiter.ts) over the limiter package\<close>

text \<open>
  \<^verbatim>\<open>RateLimiter\<close> and its \<^verbatim>\<open>TokenBucket\<close> of the limiter package, which is not part of
  the repository; modelled after the package (version 2, the one with the options
  object and the promise-returning \<^verbatim>\<open>removeTokens\<close> that rate-limiter.ts uses). The
  limiter counts the tokens taken in the current interval and also keeps a token bucket
  that refills continuously. The bucket's content and the waiting time are exact
  rationals here; the package computes them in doubles.
\<close>

record TokenBucket =
  bucketSize :: rat
  tokensPerInterval :: rat
  interval :: rat
  content :: rat
  lastDrip :: int

record RateLimiter =
  tokenBucket :: TokenBucket
  curIntervalStart :: int
  tokensThisInterval :: rat
  fireImmediately :: bool

text \<open>
  How a \<^verbatim>\<open>removeTokens\<close> promise settles: with the remaining count; with \<^verbatim>\<open>Infinity\<close>
  (a bucket of size 0); not yet, because the bucket waits the given number of
  milliseconds and then tries again; or rejected with an error.
\<close>

datatype removal = Remaining rat | Unbounded | Deferred int | Rejected

definition new_RateLimiter :: "world \<Rightarrow> rat \<Rightarrow> rat \<Rightarrow> bool \<Rightarrow> RateLimiter" where
  "new_RateLimiter w tpi ival fire =
     \<lparr> tokenBucket = \<lparr> bucketSize = tpi, tokensPerInterval = tpi, interval = ival,
                       content = tpi, lastDrip = getMilliseconds w \<rparr>,
       curIntervalStart = getMilliseconds w,
       tokensThisInterval = 0,
       fireImmediately = fire \<rparr>"

definition drip :: "world \<Rightarrow> TokenBucket \<Rightarrow> TokenBucket" where
  "drip w b =
     (if tokensPerInterval b = 0 then b\<lparr> content := bucketSize b \<rparr>
      else
        let deltaMS = max (getMilliseconds w - lastDrip b) 0;
            dripAmount = of_int deltaMS * (tokensPerInterval b / interval b)
        in b\<lparr> lastDrip := getMilliseconds w,
              content := min (content b + dripAmount) (bucketSize b) \<rparr>)"

definition TokenBucket_removeTokens :: "world \<Rightarrow> TokenBucket \<Rightarrow> rat \<Rightarrow> removal \<times> TokenBucket" where
  "TokenBucket_removeTokens w b count =
     (if bucketSize b = 0 then (Unbounded, b)
      else if count > bucketSize b then (Rejected, b)
      else
        let b' = drip w b in
        if count > content b'
        then (Deferred \<lceil>(count - content b') * (interval b' / tokensPerInterval b')\<rceil>, b')
        else (Remaining (content b' - count), b'\<lparr> content := content b' - count \<rparr>))"

text \<open>
  \<^verbatim>\<open>RateLimiter.removeTokens\<close>. With \<^verbatim>\<open>fireImmediately\<close> a request beyond the interval's
  count resolves at once with \<open>-1\<close>. Where the promise is deferred, the returned state
  is the one at the moment of suspension; what happens after the timer is not modelled.
\<close>

definition RateLimiter_removeTokens :: "world \<Rightarrow> RateLimiter \<Rightarrow> rat \<Rightarrow> removal \<times> RateLimiter" where
  "RateLimiter_removeTokens w l count =
     (if count > bucketSize (tokenBucket l) then (Rejected, l)
      else
        let now = getMilliseconds w;
            l1 = (if now < curIntervalStart l
                     \<or> of_int (now - curIntervalStart l) \<ge> interval (tokenBucket l)
                  then l\<lparr> curIntervalStart := now, tokensThisInterval := 0 \<rparr>
                  else l)
        in if count > tokensPerInterval (tokenBucket l1) - tokensThisInterval l1
           then (if fireImmediately l1 then (Remaining (- 1), l1)
                 else (Deferred \<lceil>of_int (curIntervalStart l1) + interval (tokenBucket l1) - of_int now\<rceil>, l1))
           else
             (case TokenBucket_removeTokens w (tokenBucket l1) count of
                (Remaining r, b') \<Rightarrow>
                  (Remaining r, l1\<lparr> tokenBucket := b', tokensThisInterval := tokensThisInterval l1 + count \<rparr>)
              | (Unbounded, b') \<Rightarrow>
                  (Unbounded, l1\<lparr> tokenBucket := b', tokensThisInterval := tokensThisInterval l1 + count \<rparr>)
              | (Deferred d, b') \<Rightarrow> (Deferred d, l1\<lparr> tokenBucket := b' \<rparr>)
              | (Rejected, b') \<Rightarrow> (Rejected, l1\<lparr> tokenBucket := b' \<rparr>)))"

definition ATTEMPTS_PER_MINUTE :: rat where
  "ATTEMPTS_PER_MINUTE = 5"

definition WINDOW_SIZE_MS :: rat where
  "WINDOW_SIZE_MS = 60 * 1000"

definition too_many_attempts :: response where
  "too_many_attempts =
     NextResponse_json (JObj [(''error'', JStr ''Too many login attempts. Please try again later.'')]) 429"

text \<open>
  What awaiting \<^verbatim>\<open>checkRateLimit\<close> gives: a response (the 429) or \<^verbatim>\<open>null\<close>; nothing yet,
  the limiter's promise being deferred; or a thrown error.
\<close>

datatype rate_check = Resolved "response option" | Pending int | Failed

text \<open>\<^verbatim>\<open>checkRateLimit\<close>, with the module-level map \<^verbatim>\<open>limiters\<close> passed in and returned.\<close>

definition checkRateLimit ::
  "world \<Rightarrow> (string \<rightharpoonup> RateLimiter) \<Rightarrow> string \<Rightarrow> rate_check \<times> (string \<rightharpoonup> RateLimiter)" where
  "checkRateLimit w limiters identifier =
     (let limiter = (case limiters identifier of
                       None \<Rightarrow> new_RateLimiter w ATTEMPTS_PER_MINUTE WINDOW_SIZE_MS True
                     | Some l \<Rightarrow> l)
      in case RateLimiter_removeTokens w limiter 1 of
           (Remaining remainingRequests, l') \<Rightarrow>
             (if remainingRequests < 0 then Resolved (Some too_many_attempts) else Resolved None,
              limiters(identifier \<mapsto> l'))
         | (Unbounded, l') \<Rightarrow> (Resolved None, limiters(identifier \<mapsto> l'))
         | (Deferred d, l') \<Rightarrow> (Pending d, limiters(identifier \<mapsto> l'))
         | (Rejected, l') \<Rightarrow> (Failed, limiters(identifier \<mapsto> l')))"

text \<open>A header value that is truthy: present and not empty.\<close>

definition header_value :: "request \<Rightarrow> string \<Rightarrow> string option" where
  "header_value request n =
     (case headers request n of
        None \<Rightarrow> None
      | Some v \<Rightarrow> if v = [] then None else Some v)"

text \<open>\<^verbatim>\<open>getClientIp\<close> as rate-limiter.ts defines it.\<close>

definition rate_limiter_getClientIp :: "request \<Rightarrow> string" where
  "rate_limiter_getClientIp request =
     (case header_value request ''x-forwarded-for'' of
        Some forwarded \<Rightarrow> trim (first_part CHR '','' forwarded)
      | None \<Rightarrow>
          (case header_value request ''cf-connecting-ip'' of
             Some cfConnectingIp \<Rightarrow> trim cfConnectingIp
           | None \<Rightarrow> ''unknown''))"

text \<open>
  \<^verbatim>\<open>getClientIp\<close> as lib/auth/index.ts defines it. index.ts also has
  \<^verbatim>\<open>export * from './rate-limiter'\<close>; a module's own export takes precedence over a
  name that a star export would bring, so \<^verbatim>\<open>import { getClientIp } from '@/lib/auth'\<close>,
  which is what the login handler does, gets this function.
\<close>

definition index_getClientIp :: "request \<Rightarrow> string" where
  "index_getClientIp request =
     (case header_value request ''x-forwarded-for'' of
        Some forwarded \<Rightarrow> trim (first_part CHR '','' forwarded)
      | None \<Rightarrow> ''unknown-ip'')"

section \<open>The login handler (api/auth/login) and the status handler (api/auth/check)\<close>

record user =
  user_id :: string
  user_email :: string
  user_name :: "string option"
  hashedPassword :: string

text \<open>\<^verbatim>\<open>loginSchema.safeParse(body)\<close>: an object whose \<^verbatim>\<open>email\<close> is a string that zod takes
  for an e-mail address and whose \<^verbatim>\<open>password\<close> is a string of at least one character.\<close>

definition loginSchema_safeParse :: "platform \<Rightarrow> json \<Rightarrow> (string \<times> string) option" where
  "loginSchema_safeParse P b =
     (case (obj_prop b ''email'', obj_prop b ''password'') of
        (Some (JStr e), Some (JStr pw)) \<Rightarrow>
          if is_email P e \<and> 1 \<le> length pw then Some (e, pw) else None
      | _ \<Rightarrow> None)"

text \<open>What running a handler gives so far: its response, or nothing yet while it is
  suspended on the rate limiter's deferred promise.\<close>

datatype handler_result = Responded response | Suspended int

definition login_failed :: response where
  "login_failed = NextResponse_json (JObj [(''error'', JStr ''Authentication failed'')]) 500"

definition invalid_credentials :: response where
  "invalid_credentials = NextResponse_json (JObj [(''error'', JStr ''Invalid email or password'')]) 401"

text \<open>The login handler after the rate check has let the request through. The user store
  is the function \<open>findUnique\<close> (by e-mail; \<open>Inl\<close> when the store throws).\<close>

definition login_credentials ::
  "platform \<Rightarrow> world \<Rightarrow> (string \<Rightarrow> error + user option) \<Rightarrow> request \<Rightarrow> response" where
  "login_credentials P w findUnique request =
     (case json_body request of
        None \<Rightarrow> login_failed
      | Some b \<Rightarrow>
          (case loginSchema_safeParse P b of
             None \<Rightarrow>
               NextResponse_json
                 (JObj [(''error'', JStr ''Invalid input''), (''details'', zod_issues P b)]) 400
           | Some (e, password) \<Rightarrow>
               (case findUnique e of
                  Inl err \<Rightarrow> login_failed
                | Inr None \<Rightarrow>
                    invalid_credentials
                | Inr (Some u) \<Rightarrow>
                    if \<not> bcrypt_compare P password (hashedPassword u)
                    then invalid_credentials
                    else
                      (case createToken P w
                              \<lparr> sub = Some (JStr (user_id u)),
                                email = Some (JStr (user_email u)),
                                name = (case user_name u of
                                          None \<Rightarrow> None
                                        | Some n \<Rightarrow> if n = [] then None else Some (JStr n)),
                                iat = None,
                                exp_claim = None \<rparr> of
                         Inl err \<Rightarrow> login_failed
                       | Inr token \<Rightarrow>
                           cookies_set ''auth_state''
                             \<lparr> cvalue = ''authenticated'',
                               httpOnly = False,
                               secure = (NODE_ENV w = Some ''production''),
                               maxAge = expires_in_seconds P w,
                               path = ''/'',
                               sameSite = ''lax'' \<rparr>
                             (setAuthCookie P w token
                                (NextResponse_json
                                   (JObj [(''success'', JBool True),
                                          (''user'',
                                           JObj [(''id'', JStr (user_id u)),
                                                 (''email'', JStr (user_email u)),
                                                 (''name'', (case user_name u of
                                                               None \<Rightarrow> JNull
                                                             | Some n \<Rightarrow> JStr n))]),
                                          (''isAuthenticated'', JBool True)])
                                   200))))))"

text \<open>The login handler \<^verbatim>\<open>POST\<close>: the rate check comes first, under the identifier
  \<^verbatim>\<open>login_\<close> followed by the client address.\<close>

definition login_POST ::
  "platform \<Rightarrow> world \<Rightarrow> (string \<Rightarrow> error + user option) \<Rightarrow> (string \<rightharpoonup> RateLimiter) \<Rightarrow> request
   \<Rightarrow> handler_result \<times> (string \<rightharpoonup> RateLimiter)" where
  "login_POST P w findUnique limiters request =
     (let clientIp = index_getClientIp request in
      case checkRateLimit w limiters (''login_'' @ clientIp) of
        (Resolved (Some rateLimitResponse), limiters') \<Rightarrow> (Responded rateLimitResponse, limiters')
      | (Resolved None, limiters') \<Rightarrow> (Responded (login_credentials P w findUnique request), limiters')
      | (Pending d, limiters') \<Rightarrow> (Suspended d, limiters')
      | (Failed, limiters') \<Rightarrow> (Responded login_failed, limiters'))"


text \<open>Several rate checks of one identifier, one after the other.\<close>

fun check_sequence ::
  "(string \<rightharpoonup> RateLimiter) \<Rightarrow> string \<Rightarrow> world list \<Rightarrow> rate_check list \<times> (string \<rightharpoonup> RateLimiter)" where
  "check_sequence limiters identifier [] = ([], limiters)"
| "check_sequence limiters identifier (w # ws) =
     (case checkRateLimit w limiters identifier of
        (r, limiters') \<Rightarrow>
          (case check_sequence limiters' identifier ws of
             (rs, limiters'') \<Rightarrow> (r # rs, limiters'')))"

text \<open>
  The status handler \<^verbatim>\<open>GET\<close> (api/auth/check). The token comes from the cookie or
  else from an \<^verbatim>\<open>Authorization: Bearer\<close> header; an empty token counts as none.
\<close>

definition request_token :: "request \<Rightarrow> string option" where
  "request_token request =
     (case getAuthCookie request of
        Some t \<Rightarrow> Some t
      | None \<Rightarrow>
          (case header_value request ''authorization'' of
             Some authHeader \<Rightarrow>
               if startsWith authHeader ''Bearer '' \<and> drop 7 authHeader \<noteq> []
               then Some (drop 7 authHeader) else None
           | None \<Rightarrow> None))"

definition unauthenticated :: response where
  "unauthenticated = NextResponse_json (JObj [(''authenticated'', JBool False)]) 401"

text \<open>
  The token goes through \<^verbatim>\<open>verifyToken\<close>, and \<^verbatim>\<open>!payload || !payload.sub\<close> answers 401:
  \<^verbatim>\<open>!payload\<close> holds for \<^verbatim>\<open>null\<close> and for a falsy payload (the empty string, 0,
  \<^verbatim>\<open>false\<close>); \<^verbatim>\<open>payload.sub\<close> reads an own property of a decoded object, and on a
  non-empty string it finds the method \<^verbatim>\<open>String.prototype.sub\<close>, which is truthy and is
  left out of the JSON body. An error thrown by \<^verbatim>\<open>verifyToken\<close> is caught and answered
  with 500.
\<close>

definition check_GET :: "platform \<Rightarrow> world \<Rightarrow> request \<Rightarrow> response" where
  "check_GET P w request =
     (case request_token request of
        None \<Rightarrow> unauthenticated
      | Some t \<Rightarrow>
          (case verifyToken P w t of
             Inl err \<Rightarrow>
               NextResponse_json
                 (JObj [(''authenticated'', JBool False),
                        (''error'', JStr ''Authentication check failed'')]) 500
           | Inr None \<Rightarrow> unauthenticated
           | Inr (Some payload) \<Rightarrow>
               if \<not> truthy payload then unauthenticated
               else
                 (case payload of
                    JStr s \<Rightarrow> NextResponse_json (JObj [(''authenticated'', JBool True)]) 200
                  | _ \<Rightarrow>
                      if \<not> truthy_opt (obj_prop payload ''sub'') then unauthenticated
                      else
                        NextResponse_json
                          (JObj ([(''authenticated'', JBool True)] @
                                 (case obj_prop payload ''sub'' of
                                    None \<Rightarrow> [] | Some v \<Rightarrow> [(''userId'', v)]) @
                                 (case obj_prop payload ''email'' of
                                    None \<Rightarrow> [] | Some v \<Rightarrow> [(''email'', v)])))
                          200)))"

section \<open>Sample values of the platform functions\<close>

text \<open>
  The values of the platform functions at the strings and objects that the examples
  below use: what \<^verbatim>\<open>atob\<close>, \<^verbatim>\<open>JSON.parse\<close>, \<^verbatim>\<open>parseInt\<close>, base64url encoding and
  HMAC-SHA256 (under the secret \<^verbatim>\<open>s3cret\<close>) give there. Elsewhere the sample functions
  fail or return an empty string; no example reads them there.
\<close>

definition hdr_seg :: string where
  "hdr_seg = ''eyJhbGciOiJIUzI1NiIsInR5cCI6IkpXVCJ9''"

definition claims_exp0 :: json where
  "claims_exp0 = JObj [(''sub'', JStr ''u1''), (''email'', JStr ''a@example.com''), (''exp'', JNum 0)]"

definition seg_exp0 :: string where
  "seg_exp0 = ''eyJzdWIiOiJ1MSIsImVtYWlsIjoiYUBleGFtcGxlLmNvbSIsImV4cCI6MH0''"

definition sig_exp0 :: string where
  "sig_exp0 = ''7Tdj7Wz83LuG0VpVFZNgrY0eeMoyz8-mD5Eq1UgyN7A''"

definition claims_noexp :: json where
  "claims_noexp = JObj [(''sub'', JStr ''u1''), (''email'', JStr ''a@example.com'')]"

definition seg_noexp :: string where
  "seg_noexp = ''eyJzdWIiOiJ1MSIsImVtYWlsIjoiYUBleGFtcGxlLmNvbSJ9''"

definition claims_emptysub :: json where
  "claims_emptysub = JObj [(''sub'', JStr []), (''email'', JStr ''a@example.com'')]"

definition seg_emptysub :: string where
  "seg_emptysub = ''eyJzdWIiOiIiLCJlbWFpbCI6ImFAZXhhbXBsZS5jb20ifQ''"

definition claims_nosub :: json where
  "claims_nosub = JObj [(''email'', JStr ''a@example.com''),
                        (''iat'', JNum 1700000000), (''exp'', JNum 1700086400)]"

definition seg_nosub :: string where
  "seg_nosub = ''eyJlbWFpbCI6ImFAZXhhbXBsZS5jb20iLCJpYXQiOjE3MDAwMDAwMDAsImV4cCI6MTcwMDA4NjQwMH0''"

definition sig_nosub :: string where
  "sig_nosub = ''S1D9v_nFeaF9E7XRUdhL8JHW5zAV7RNox_IM6kWQYJA''"

definition claims_noemail :: json where
  "claims_noemail = JObj [(''sub'', JStr ''u1''), (''iat'', JNum 1700000000), (''exp'', JNum 1700086400)]"

definition seg_noemail :: string where
  "seg_noemail = ''eyJzdWIiOiJ1MSIsImlhdCI6MTcwMDAwMDAwMCwiZXhwIjoxNzAwMDg2NDAwfQ''"

definition sig_noemail :: string where
  "sig_noemail = ''Gw9Pn2gKjVCL73AuP9vq9VW0N44fOkOnG976I0co9Aw''"

definition claims_day :: json where
  "claims_day = JObj [(''sub'', JStr ''u1''), (''email'', JStr ''a@example.com''),
                      (''iat'', JNum 1700000000), (''exp'', JNum 1700086400)]"

definition seg_day :: string where
  "seg_day = ''eyJzdWIiOiJ1MSIsImVtYWlsIjoiYUBleGFtcGxlLmNvbSIsImlhdCI6MTcwMDAwMDAwMCwiZXhwIjoxNzAwMDg2NDAwfQ''"

definition sig_day :: string where
  "sig_day = ''VcvHAang8G2pHBB5oHbsDP8rDOjfRwsk_k2NhuprRlY''"

definition claims_zero :: json where
  "claims_zero = JObj [(''sub'', JStr ''u1''), (''email'', JStr ''a@example.com''),
                       (''iat'', JNum 1700000000), (''exp'', JNum 1700000000)]"

definition seg_zero :: string where
  "seg_zero = ''eyJzdWIiOiJ1MSIsImVtYWlsIjoiYUBleGFtcGxlLmNvbSIsImlhdCI6MTcwMDAwMDAwMCwiZXhwIjoxNzAwMDAwMDAwfQ''"

definition sig_zero :: string where
  "sig_zero = ''03AZl5Igzc1YG-mH-DV7zsEtp1NQuZr73KeBVs45LtE''"

text \<open>Sample tokens: with \<^verbatim>\<open>exp\<close> 0, without \<^verbatim>\<open>exp\<close>, with an empty \<^verbatim>\<open>sub\<close> (the last two
  with a signature segment that is not a signature), without \<^verbatim>\<open>sub\<close>, without
  \<^verbatim>\<open>email\<close>, and the tokens issued at second 1700000000 for a day and for zero
  seconds.\<close>

definition tok_exp0 :: string where
  "tok_exp0 = hdr_seg @ ''.'' @ seg_exp0 @ ''.'' @ sig_exp0"

definition tok_noexp :: string where
  "tok_noexp = hdr_seg @ ''.'' @ seg_noexp @ ''.x''"

definition tok_emptysub :: string where
  "tok_emptysub = hdr_seg @ ''.'' @ seg_emptysub @ ''.x''"

definition tok_nosub :: string where
  "tok_nosub = hdr_seg @ ''.'' @ seg_nosub @ ''.'' @ sig_nosub"

definition tok_noemail :: string where
  "tok_noemail = hdr_seg @ ''.'' @ seg_noemail @ ''.'' @ sig_noemail"

definition tok_day :: string where
  "tok_day = hdr_seg @ ''.'' @ seg_day @ ''.'' @ sig_day"

definition tok_zero :: string where
  "tok_zero = hdr_seg @ ''.'' @ seg_zero @ ''.'' @ sig_zero"

definition sample_platform :: platform where
  \<open>sample_platform =
     \<lparr> atob = map_of
         [(seg_exp0 @ ''='', ''{"sub":"u1","email":"a@example.com","exp":0}''),
          (seg_noexp, ''{"sub":"u1","email":"a@example.com"}''),
          (seg_emptysub @ ''=='', ''{"sub":"","email":"a@example.com"}''),
          (seg_nosub @ ''='', ''{"email":"a@example.com","iat":1700000000,"exp":1700086400}'')],
       JSON_parse = map_of
         [(''{"sub":"u1","email":"a@example.com","exp":0}'', claims_exp0),
          (''{"sub":"u1","email":"a@example.com"}'', claims_noexp),
          (''{"sub":"","email":"a@example.com"}'', claims_emptysub),
          (''{"email":"a@example.com","iat":1700000000,"exp":1700086400}'', claims_nosub)],
       ToNumber = (\<lambda>v. None),
       parseInt = map_of [(''86400'', 86400), (''0'', 0)],
       b64url_json = (\<lambda>v. if v = jose_header then hdr_seg
                          else if v = claims_day then seg_day
                          else if v = claims_zero then seg_zero
                          else []),
       jwt_decode = (\<lambda>t. if t = tok_exp0 then Some (jose_header, claims_exp0)
                         else if t = tok_nosub then Some (jose_header, claims_nosub)
                         else if t = tok_day then Some (jose_header, claims_day)
                         else if t = tok_zero then Some (jose_header, claims_zero)
                         else if t = tok_noemail then Some (jose_header, claims_noemail)
                         else None),
       hmac_sign = (\<lambda>alg secret input.
          if alg = ''HS256'' \<and> secret = ''s3cret'' then
            (if input = hdr_seg @ ''.'' @ seg_exp0 then sig_exp0
             else if input = hdr_seg @ ''.'' @ seg_nosub then sig_nosub
             else if input = hdr_seg @ ''.'' @ seg_day then sig_day
             else if input = hdr_seg @ ''.'' @ seg_zero then sig_zero
             else if input = hdr_seg @ ''.'' @ seg_noemail then sig_noemail
             else [])
          else []),
       is_email = (\<lambda>s. CHR ''@'' \<in> set s),
       zod_issues = (\<lambda>v. JArr []),
       bcrypt_compare = (\<lambda>password hashed. hashed = ''bcrypt:'' @ password) \<rparr>\<close>

definition sample_world :: world where
  "sample_world =
     \<lparr> JWT_SECRET = Some ''s3cret'', JWT_EXPIRES_IN = None, NODE_ENV = Some ''production'',
       Date_now = 1700000000000, getMilliseconds = 0 \<rparr>"

definition cookie_request :: "string \<Rightarrow> string \<Rightarrow> request" where
  "cookie_request p token =
     \<lparr> pathname = p, headers = Map.empty, cookies = [''auth_token'' \<mapsto> token], json_body = None \<rparr>"

definition sample_user :: user where
  "sample_user = \<lparr> user_id = ''u1'', user_email = ''a@example.com'', user_name = None,
                    hashedPassword = ''bcrypt:correct horse'' \<rparr>"

definition sample_store :: "string \<Rightarrow> error + user option" where
  "sample_store e = Inr (if e = ''a@example.com'' then Some sample_user else None)"

definition login_request :: "(string \<rightharpoonup> string) \<Rightarrow> string \<Rightarrow> string \<Rightarrow> request" where
  "login_request hs e pw =
     \<lparr> pathname = ''/api/auth/login'', headers = hs, cookies = Map.empty,
       json_body = Some (JObj [(''email'', JStr e), (''password'', JStr pw)]) \<rparr>"

section \<open>Notions used to state the properties\<close>

text \<open>The claims of a token as \<^verbatim>\<open>simpleVerifyToken\<close> decodes them: the second of three
  segments, base64url turned into padded base64, through \<^verbatim>\<open>atob\<close> and \<^verbatim>\<open>JSON.parse\<close>.\<close>

definition claims_segment :: "platform \<Rightarrow> string \<Rightarrow> json option" where
  "claims_segment P token =
     (let parts = split_on CHR ''.'' token;
          base64 = replace_all CHR ''_'' CHR ''/'' (replace_all CHR ''-'' CHR ''+'' (parts ! 1))
      in if length parts \<noteq> 3 then None
         else case atob P (padEnd base64 (length base64 + (4 - length base64 mod 4) mod 4)) of
                None \<Rightarrow> None
              | Some text \<Rightarrow> JSON_parse P text)"

text \<open>The claims \<^verbatim>\<open>jwt.sign\<close> writes for a payload without \<^verbatim>\<open>iat\<close> and \<^verbatim>\<open>exp\<close> and a
  lifetime of \<open>n\<close> seconds, and the token it builds from claims.\<close>

definition issued_claims :: "world \<Rightarrow> int \<Rightarrow> JWTPayload \<Rightarrow> json" where
  "issued_claims w n payload =
     JObj (defined_fields payload @
           [(''iat'', JNum (of_int (Date_now w div 1000))),
            (''exp'', JNum (of_int (Date_now w div 1000) + of_int n))])"

definition issued_token :: "platform \<Rightarrow> string \<Rightarrow> json \<Rightarrow> string" where
  "issued_token P secret claims =
     b64url_json P jose_header @ ''.'' @ b64url_json P claims @ ''.'' @
     hmac_sign P ''HS256'' secret (b64url_json P jose_header @ ''.'' @ b64url_json P claims)"

text \<open>
  What base64url encoding, HMAC-SHA256 and the package's decoding guarantee for given
  claims: the three segments hold no dot, the signature is not blank, and decoding the
  token gives back the header and the claims that were encoded.
\<close>

definition codec_ok :: "platform \<Rightarrow> string \<Rightarrow> json \<Rightarrow> bool" where
  "codec_ok P secret claims =
     (let h = b64url_json P jose_header;
          c = b64url_json P claims;
          s = hmac_sign P ''HS256'' secret (h @ ''.'' @ c)
      in CHR ''.'' \<notin> set h \<and> CHR ''.'' \<notin> set c \<and> CHR ''.'' \<notin> set s \<and> trim s \<noteq> []
         \<and> jwt_decode P (h @ ''.'' @ c @ ''.'' @ s) = Some (jose_header, claims))"

text \<open>The route classes of the route guard, written out.\<close>

definition is_public_only :: "string \<Rightarrow> bool" where
  "is_public_only p =
     (p = ''/'' \<or> startsWith p ''//'' \<or> p = ''/signin'' \<or> startsWith p ''/signin/''
      \<or> p = ''/signup'' \<or> startsWith p ''/signup/'')"

definition is_protected :: "string \<Rightarrow> bool" where
  "is_protected p = (p = ''/dashboard'' \<or> startsWith p ''/dashboard/'')"

text \<open>A limiter as \<^verbatim>\<open>checkRateLimit\<close> creates it: 5 tokens per 60000 ms, firing at once.\<close>

definition std_limiter :: "RateLimiter \<Rightarrow> bool" where
  "std_limiter l =
     (fireImmediately l \<and> bucketSize (tokenBucket l) = 5 \<and> tokensPerInterval (tokenBucket l) = 5
      \<and> interval (tokenBucket l) = 60000)"

text \<open>Such a limiter whose interval began at \<open>t0\<close>, after \<open>k\<close> tokens were taken in this
  interval, the last one at \<open>tlast\<close>: the bucket still holds the rest.\<close>

definition spent :: "RateLimiter \<Rightarrow> int \<Rightarrow> nat \<Rightarrow> int \<Rightarrow> bool" where
  "spent l t0 k tlast =
     (std_limiter l \<and> curIntervalStart l = t0 \<and> tokensThisInterval l = of_nat k
      \<and> 5 - of_nat k \<le> content (tokenBucket l) \<and> lastDrip (tokenBucket l) = tlast)"

text \<open>
  The two time checks of \<^verbatim>\<open>jwt.verify\<close>, written out: \<^verbatim>\<open>nbf\<close>, when present, is a
  number not after the current second; \<^verbatim>\<open>exp\<close>, when present, is a number after the
  current second.
\<close>

definition nbf_passed :: "world \<Rightarrow> json \<Rightarrow> bool" where
  "nbf_passed w payload =
     (case obj_prop payload ''nbf'' of
        None \<Rightarrow> True
      | Some (JNum n) \<Rightarrow> n \<le> of_int (Date_now w div 1000)
      | Some v \<Rightarrow> False)"

definition exp_ahead :: "world \<Rightarrow> json \<Rightarrow> bool" where
  "exp_ahead w payload =
     (case obj_prop payload ''exp'' of
        None \<Rightarrow> True
      | Some (JNum e) \<Rightarrow> of_int (Date_now w div 1000) < e
      | Some v \<Rightarrow> False)"



definition at_ms :: "int \<Rightarrow> world" where
  "at_ms t = sample_world\<lparr> getMilliseconds := t \<rparr>"

definition u1_payload :: JWTPayload where
  "u1_payload = \<lparr> sub = Some (JStr ''u1''), email = Some (JStr ''a@example.com''), name = None,
                   iat = None, exp_claim = None \<rparr>"

text \<open>A limiter whose five tokens of the interval that began at 0 are spent, and a
  login request that carries no headers.\<close>

definition spent_limiter :: RateLimiter where
  "spent_limiter =
     \<lparr> tokenBucket = \<lparr> bucketSize = 5, tokensPerInterval = 5, interval = 60000,
                       content = 0, lastDrip = 400 \<rparr>,
       curIntervalStart = 0, tokensThisInterval = 5, fireImmediately = True \<rparr>"

definition bare_login :: request where
  "bare_login = login_request Map.empty ''a@example.com'' ''guess''"

definition good_login :: request where
  "good_login = login_request Map.empty ''a@example.com'' ''correct horse''"

definition forwarded_request :: request where
  "forwarded_request = login_request [''x-forwarded-for'' \<mapsto> ''203.0.113.7, 10.0.0.1''] ''a@example.com'' ''guess''"

definition cloudflare_request :: request where
  "cloudflare_request = login_request [''cf-connecting-ip'' \<mapsto> ''198.51.100.2''] ''a@example.com'' ''guess''"



section \<open>The rate governor: burst, denial, refill\<close>

lemma fresh_limiter:
  "std_limiter (new_RateLimiter w ATTEMPTS_PER_MINUTE WINDOW_SIZE_MS True)"
  "curIntervalStart (new_RateLimiter w ATTEMPTS_PER_MINUTE WINDOW_SIZE_MS True) = getMilliseconds w"
  "tokensThisInterval (new_RateLimiter w ATTEMPTS_PER_MINUTE WINDOW_SIZE_MS True) = 0"
  "content (tokenBucket (new_RateLimiter w ATTEMPTS_PER_MINUTE WINDOW_SIZE_MS True)) = 5"
  "lastDrip (tokenBucket (new_RateLimiter w ATTEMPTS_PER_MINUTE WINDOW_SIZE_MS True)) = getMilliseconds w"
  by (simp_all add: std_limiter_def new_RateLimiter_def ATTEMPTS_PER_MINUTE_def WINDOW_SIZE_MS_def)

lemma removeTokens_within_interval:
  assumes std: "std_limiter l"
    and win: "curIntervalStart l \<le> getMilliseconds w" "getMilliseconds w - curIntervalStart l < 60000"
    and cnt: "0 \<le> tokensThisInterval l" "tokensThisInterval l \<le> 4"
    and cont: "5 - tokensThisInterval l \<le> content (tokenBucket l)"
  shows "\<exists>r l'. RateLimiter_removeTokens w l 1 = (Remaining r, l') \<and> 0 \<le> r \<and> std_limiter l'
            \<and> curIntervalStart l' = curIntervalStart l
            \<and> tokensThisInterval l' = tokensThisInterval l + 1
            \<and> 5 - tokensThisInterval l' \<le> content (tokenBucket l')
            \<and> lastDrip (tokenBucket l') = getMilliseconds w"
proof -
  let ?b = "drip w (tokenBucket l)"
  define d :: rat where "d = of_int (max (getMilliseconds w - lastDrip (tokenBucket l)) 0) * (5 / 60000)"
  have d: "0 \<le> d" unfolding d_def by (intro mult_nonneg_nonneg) simp_all
  have cb: "content ?b = min (content (tokenBucket l) + d) 5"
    using std unfolding d_def by (simp add: drip_def std_limiter_def Let_def del: of_int_max)
  have c1: "content ?b \<ge> min (content (tokenBucket l)) 5"
    unfolding cb using d by (simp add: min_def)
  have c2: "content ?b \<ge> 5 - tokensThisInterval l" using c1 cont cnt by (simp add: min_def split: if_splits)
  have ge1: "1 \<le> content ?b" using c2 cnt by simp
  have params: "bucketSize ?b = 5" "tokensPerInterval ?b = 5" "interval ?b = 60000" "lastDrip ?b = getMilliseconds w"
    using std by (simp_all add: drip_def std_limiter_def Let_def)
  have tb: "TokenBucket_removeTokens w (tokenBucket l) 1 = (Remaining (content ?b - 1), ?b\<lparr>content := content ?b - 1\<rparr>)"
    using std ge1 by (simp add: TokenBucket_removeTokens_def std_limiter_def Let_def)
  have "RateLimiter_removeTokens w l 1 =
      (Remaining (content ?b - 1), l\<lparr>tokenBucket := ?b\<lparr>content := content ?b - 1\<rparr>, tokensThisInterval := tokensThisInterval l + 1\<rparr>)"
    using std win cnt tb by (simp add: RateLimiter_removeTokens_def std_limiter_def Let_def)
  then show ?thesis
    using ge1 c2 params std by (simp add: std_limiter_def)
qed

lemma removeTokens_interval_spent:
  assumes std: "std_limiter l"
    and win: "curIntervalStart l \<le> getMilliseconds w" "getMilliseconds w - curIntervalStart l < 60000"
    and cnt: "tokensThisInterval l = 5"
  shows "RateLimiter_removeTokens w l 1 = (Remaining (- 1), l)"
  using assms by (simp add: RateLimiter_removeTokens_def std_limiter_def Let_def)

lemma removeTokens_after_window:
  assumes std: "std_limiter l"
    and win: "60000 \<le> getMilliseconds w - curIntervalStart l"
    and idle: "60000 \<le> getMilliseconds w - lastDrip (tokenBucket l)"
    and cont: "0 \<le> content (tokenBucket l)"
  shows "\<exists>l'. RateLimiter_removeTokens w l 1 = (Remaining 4, l') \<and> std_limiter l'
            \<and> curIntervalStart l' = getMilliseconds w \<and> tokensThisInterval l' = 1
            \<and> content (tokenBucket l') = 4 \<and> lastDrip (tokenBucket l') = getMilliseconds w"
proof -
  let ?b = "drip w (tokenBucket l)"
  define x :: rat where "x = of_int (max (getMilliseconds w - lastDrip (tokenBucket l)) 0)"
  define d :: rat where "d = x * (5 / 60000)"
  have "(60000::rat) \<le> x"
    unfolding x_def using idle by (metis max.coboundedI1 of_int_le_iff of_int_numeral)
  then have d: "5 \<le> d" unfolding d_def by simp
  have cb: "content ?b = min (content (tokenBucket l) + d) 5"
    using std unfolding d_def x_def by (simp add: drip_def std_limiter_def Let_def del: of_int_max)
  have c: "content ?b = 5"
    unfolding cb using d cont by (simp add: min_def)
  have params: "bucketSize ?b = 5" "tokensPerInterval ?b = 5" "interval ?b = 60000" "lastDrip ?b = getMilliseconds w"
    using std by (simp_all add: drip_def std_limiter_def Let_def)
  have tb: "TokenBucket_removeTokens w (tokenBucket l) 1 = (Remaining 4, ?b\<lparr>content := 4\<rparr>)"
    using std c by (simp add: TokenBucket_removeTokens_def std_limiter_def Let_def)
  have w': "(60000::rat) \<le> of_int (getMilliseconds w - curIntervalStart l)"
    using win by (metis of_int_le_iff of_int_numeral)
  have "RateLimiter_removeTokens w l 1 =
      (Remaining 4, l\<lparr>curIntervalStart := getMilliseconds w, tokensThisInterval := 0\<rparr>
                      \<lparr>tokenBucket := ?b\<lparr>content := 4\<rparr>, tokensThisInterval := 1\<rparr>)"
    using std w' tb by (simp add: RateLimiter_removeTokens_def std_limiter_def Let_def)
  then show ?thesis
    using params std by (simp add: std_limiter_def)
qed


lemma checkRateLimit_fresh:
  assumes "limiters ident = None"
  shows "\<exists>l'. checkRateLimit w limiters ident = (Resolved None, limiters(ident \<mapsto> l'))
            \<and> spent l' (getMilliseconds w) 1 (getMilliseconds w)"
proof -
  let ?l = "new_RateLimiter w ATTEMPTS_PER_MINUTE WINDOW_SIZE_MS True"
  obtain r l' where r: "RateLimiter_removeTokens w ?l 1 = (Remaining r, l')" "0 \<le> r" "std_limiter l'"
      "curIntervalStart l' = curIntervalStart ?l" "tokensThisInterval l' = tokensThisInterval ?l + 1"
      "5 - tokensThisInterval l' \<le> content (tokenBucket l')" "lastDrip (tokenBucket l') = getMilliseconds w"
    using removeTokens_within_interval [of ?l w] by (auto simp: fresh_limiter)
  then have "spent l' (getMilliseconds w) 1 (getMilliseconds w)"
    by (simp add: spent_def fresh_limiter)
  moreover have "checkRateLimit w limiters ident = (Resolved None, limiters(ident \<mapsto> l'))"
    using assms r by (simp add: checkRateLimit_def)
  ultimately show ?thesis by blast
qed

lemma checkRateLimit_allowed:
  assumes "limiters ident = Some l" "spent l t0 k tlast" "k \<le> 4"
    and "t0 \<le> getMilliseconds w" "getMilliseconds w < t0 + 60000"
  shows "\<exists>l'. checkRateLimit w limiters ident = (Resolved None, limiters(ident \<mapsto> l'))
            \<and> spent l' t0 (Suc k) (getMilliseconds w)"
proof -
  have k4: "(of_nat k :: rat) \<le> 4" using assms(3) by (metis of_nat_le_iff of_nat_numeral)
  obtain r l' where r: "RateLimiter_removeTokens w l 1 = (Remaining r, l')" "0 \<le> r" "std_limiter l'"
      "curIntervalStart l' = curIntervalStart l" "tokensThisInterval l' = tokensThisInterval l + 1"
      "5 - tokensThisInterval l' \<le> content (tokenBucket l')" "lastDrip (tokenBucket l') = getMilliseconds w"
    using removeTokens_within_interval [of l w] assms k4 by (auto simp: spent_def)
  then have "spent l' t0 (Suc k) (getMilliseconds w)"
    using assms(2) by (simp add: spent_def)
  moreover have "checkRateLimit w limiters ident = (Resolved None, limiters(ident \<mapsto> l'))"
    using assms(1) r by (simp add: checkRateLimit_def)
  ultimately show ?thesis by blast
qed

lemma checkRateLimit_denied:
  assumes "limiters ident = Some l" "spent l t0 5 tlast"
    and "t0 \<le> getMilliseconds w" "getMilliseconds w < t0 + 60000"
  shows "checkRateLimit w limiters ident = (Resolved (Some too_many_attempts), limiters(ident \<mapsto> l))"
proof -
  have "RateLimiter_removeTokens w l 1 = (Remaining (- 1), l)"
    using removeTokens_interval_spent [of l w] assms by (simp add: spent_def)
  then show ?thesis using assms(1) by (simp add: checkRateLimit_def)
qed

lemma checkRateLimit_after_window:
  assumes "limiters ident = Some l" "spent l t0 k tlast" "k \<le> 5"
    and "t0 + 60000 \<le> getMilliseconds w" "tlast + 60000 \<le> getMilliseconds w"
  shows "\<exists>l'. checkRateLimit w limiters ident = (Resolved None, limiters(ident \<mapsto> l'))
            \<and> spent l' (getMilliseconds w) 1 (getMilliseconds w)"
proof -
  have "(of_nat k :: rat) \<le> 5" using assms(3) by (metis of_nat_le_iff of_nat_numeral)
  then have c0: "0 \<le> content (tokenBucket l)" using assms(2) by (simp add: spent_def)
  obtain l' where r: "RateLimiter_removeTokens w l 1 = (Remaining 4, l')" "std_limiter l'"
      "curIntervalStart l' = getMilliseconds w" "tokensThisInterval l' = 1"
      "content (tokenBucket l') = 4" "lastDrip (tokenBucket l') = getMilliseconds w"
    using removeTokens_after_window [of l w] assms c0 by (auto simp: spent_def)
  then have "spent l' (getMilliseconds w) 1 (getMilliseconds w)"
    by (simp add: spent_def)
  moreover have "checkRateLimit w limiters ident = (Resolved None, limiters(ident \<mapsto> l'))"
    using assms(1) r by (simp add: checkRateLimit_def)
  ultimately show ?thesis by blast
qed

text \<open>
  C4. With 5 tokens per 60000 ms, for an identifier that has no limiter yet: five
  consecutive calls of \<^verbatim>\<open>checkRateLimit\<close> within one second all resolve to \<^verbatim>\<open>null\<close>
  (allowed), a sixth call right after (still within the interval that began with the
  first) resolves to the 429 response, and a call made after 60000 ms without calls
  resolves to \<^verbatim>\<open>null\<close> again. The limiters of other identifiers are arbitrary.
\<close>

theorem burst_then_deny_then_refill:
  assumes fresh: "limiters ident = None"
    and burst: "getMilliseconds w1 \<le> getMilliseconds w2" "getMilliseconds w2 \<le> getMilliseconds w3"
               "getMilliseconds w3 \<le> getMilliseconds w4" "getMilliseconds w4 \<le> getMilliseconds w5"
               "getMilliseconds w5 \<le> getMilliseconds w1 + 1000"
    and sixth: "getMilliseconds w5 \<le> getMilliseconds w6" "getMilliseconds w6 < getMilliseconds w1 + 60000"
    and idle: "getMilliseconds w6 + 60000 \<le> getMilliseconds w7"
  shows "fst (check_sequence limiters ident [w1, w2, w3, w4, w5, w6, w7]) =
           [Resolved None, Resolved None, Resolved None, Resolved None, Resolved None,
            Resolved (Some too_many_attempts), Resolved None]
         \<and> status too_many_attempts = 429"
proof -
  let ?t = "getMilliseconds w1"
  obtain l1 where s1: "checkRateLimit w1 limiters ident = (Resolved None, limiters(ident \<mapsto> l1))"
      and i1: "spent l1 ?t 1 ?t"
    using checkRateLimit_fresh [of limiters ident w1] fresh by blast
  obtain l2 where s2: "checkRateLimit w2 (limiters(ident \<mapsto> l1)) ident = (Resolved None, limiters(ident \<mapsto> l2))"
      and i2: "spent l2 ?t 2 (getMilliseconds w2)"
    using checkRateLimit_allowed [of "limiters(ident \<mapsto> l1)" ident l1 ?t 1 ?t w2] i1 burst sixth
    by (auto simp: numeral_2_eq_2)
  obtain l3 where s3: "checkRateLimit w3 (limiters(ident \<mapsto> l2)) ident = (Resolved None, limiters(ident \<mapsto> l3))"
      and i3: "spent l3 ?t 3 (getMilliseconds w3)"
    using checkRateLimit_allowed [of "limiters(ident \<mapsto> l2)" ident l2 ?t 2 _ w3] i2 burst sixth
    by (auto simp: numeral_3_eq_3 numeral_2_eq_2)
  obtain l4 where s4: "checkRateLimit w4 (limiters(ident \<mapsto> l3)) ident = (Resolved None, limiters(ident \<mapsto> l4))"
      and i4: "spent l4 ?t 4 (getMilliseconds w4)"
    using checkRateLimit_allowed [of "limiters(ident \<mapsto> l3)" ident l3 ?t 3 _ w4] i3 burst sixth
    by (auto simp: eval_nat_numeral)
  obtain l5 where s5: "checkRateLimit w5 (limiters(ident \<mapsto> l4)) ident = (Resolved None, limiters(ident \<mapsto> l5))"
      and i5: "spent l5 ?t 5 (getMilliseconds w5)"
    using checkRateLimit_allowed [of "limiters(ident \<mapsto> l4)" ident l4 ?t 4 _ w5] i4 burst sixth
    by (auto simp: eval_nat_numeral)
  have s6: "checkRateLimit w6 (limiters(ident \<mapsto> l5)) ident
              = (Resolved (Some too_many_attempts), limiters(ident \<mapsto> l5))"
    using checkRateLimit_denied [of "limiters(ident \<mapsto> l5)" ident l5 ?t _ w6] i5 burst sixth
    by auto
  have a7: "?t + 60000 \<le> getMilliseconds w7" "getMilliseconds w5 + 60000 \<le> getMilliseconds w7"
    using burst sixth idle by linarith+
  obtain l7 where s7: "checkRateLimit w7 (limiters(ident \<mapsto> l5)) ident = (Resolved None, limiters(ident \<mapsto> l7))"
    using checkRateLimit_after_window [of "limiters(ident \<mapsto> l5)" ident l5 ?t 5 "getMilliseconds w5" w7] i5 a7
    by auto
  show ?thesis
    by (simp add: s1 s2 s3 s4 s5 s6 s7 too_many_attempts_def NextResponse_json_def)
qed

text \<open>C4 on calls at 0, 100, 200, 300, 400 and 500 ms and, after a minute without
  calls, at 60500 ms.\<close>

theorem burst_then_deny_then_refill_witness:
  "fst (check_sequence Map.empty ''login_203.0.113.7''
          [at_ms 0, at_ms 100, at_ms 200, at_ms 300, at_ms 400, at_ms 500, at_ms 60500]) =
     [Resolved None, Resolved None, Resolved None, Resolved None, Resolved None,
      Resolved (Some too_many_attempts), Resolved None]
   \<and> status too_many_attempts = 429"
  using burst_then_deny_then_refill
          [of Map.empty "''login_203.0.113.7''" "at_ms 0" "at_ms 100" "at_ms 200" "at_ms 300"
              "at_ms 400" "at_ms 500" "at_ms 60500"]
  by (simp add: at_ms_def)

section \<open>The constrained verifier and the route guard\<close>

lemmas sample_simps = hdr_seg_def seg_exp0_def sig_exp0_def seg_noexp_def seg_emptysub_def seg_nosub_def sig_nosub_def
  claims_exp0_def claims_noexp_def claims_emptysub_def claims_nosub_def sample_platform_def sample_world_def
  tok_exp0_def tok_noexp_def tok_emptysub_def tok_nosub_def

lemma simpleVerifyToken_claims:
  "simpleVerifyToken P w token =
     (case claims_segment P token of
        Some (JObj payload) \<Rightarrow>
          if \<not> truthy_opt (map_of payload ''sub'') \<or> \<not> truthy_opt (map_of payload ''email'') then None
          else if (case map_of payload ''exp'' of None \<Rightarrow> False | Some e \<Rightarrow> truthy e \<and> exp_reached P w e) then None
          else Some \<lparr> sub = map_of payload ''sub'', email = map_of payload ''email'',
                      name = map_of payload ''name'', iat = map_of payload ''iat'',
                      exp_claim = map_of payload ''exp'' \<rparr>
      | _ \<Rightarrow> None)"
  by (simp add: simpleVerifyToken_def claims_segment_def Let_def split: option.splits json.splits)

lemma claims_segment_exp0: "claims_segment sample_platform tok_exp0 = Some claims_exp0"
  by (simp add: claims_segment_def Let_def replace_all_def padEnd_def sample_simps)

lemma claims_segment_noexp: "claims_segment sample_platform tok_noexp = Some claims_noexp"
  by (simp add: claims_segment_def Let_def replace_all_def padEnd_def sample_simps)

lemma claims_segment_emptysub: "claims_segment sample_platform tok_emptysub = Some claims_emptysub"
  by (simp add: claims_segment_def Let_def replace_all_def padEnd_def sample_simps)

lemma claims_segment_nosub: "claims_segment sample_platform tok_nosub = Some claims_nosub"
  by (simp add: claims_segment_def Let_def replace_all_def padEnd_def sample_simps)

lemma claims_segment_three: "claims_segment P token = Some v \<Longrightarrow> length (split_on CHR ''.'' token) = 3"
  by (simp add: claims_segment_def Let_def split: if_splits)

lemma claims_segment_nonempty: "claims_segment P token = Some v \<Longrightarrow> token \<noteq> []"
  by (auto simp: claims_segment_def Let_def split: if_splits)

lemma simpleVerifyToken_noexp: "simpleVerifyToken sample_platform w tok_noexp \<noteq> None"
  by (simp add: simpleVerifyToken_claims claims_segment_noexp) (simp add: claims_noexp_def)

lemma truthy_opt_Some: "truthy_opt x \<Longrightarrow> \<exists>y. x = Some y"
  by (cases x) auto

lemma startsWith_Cons: "startsWith s (c # p) \<longleftrightarrow> (\<exists>xs. s = c # xs \<and> startsWith xs p)"
  by (cases s) (auto simp: startsWith_def)

lemma startsWith_Nil: "startsWith s []"
  by (simp add: startsWith_def)

lemma protected_not_public: "is_protected p \<Longrightarrow> \<not> is_public_only p \<and> \<not> startsWith p ''/api/''"
  by (auto simp: is_protected_def is_public_only_def startsWith_Cons)

text \<open>
  C5. The route guard. A request whose path starts with \<^verbatim>\<open>/api/\<close> passes through whatever
  its cookie. For every other request: if the constrained cookie check says
  authenticated and the path is a public-only route (\<^verbatim>\<open>/\<close>, \<^verbatim>\<open>/signin\<close>, \<^verbatim>\<open>/signup\<close>, or
  one of them followed by \<^verbatim>\<open>/\<close> and more), the guard redirects to \<^verbatim>\<open>/dashboard\<close>; if it
  says unauthenticated and the path is a protected route (\<^verbatim>\<open>/dashboard\<close>, or that
  followed by \<^verbatim>\<open>/\<close> and more), it redirects to \<^verbatim>\<open>/signin\<close>; in every other combination
  the request passes through.
\<close>

theorem route_guard:
  "(startsWith (pathname request) ''/api/'' \<longrightarrow> middleware P w request = NextResponse_next)
   \<and> (\<not> startsWith (pathname request) ''/api/'' \<and> isAuthenticated P w request
        \<and> is_public_only (pathname request)
      \<longrightarrow> middleware P w request = NextResponse_redirect ''/dashboard'')
   \<and> (\<not> startsWith (pathname request) ''/api/'' \<and> \<not> isAuthenticated P w request
        \<and> is_protected (pathname request)
      \<longrightarrow> middleware P w request = NextResponse_redirect ''/signin'')
   \<and> (\<not> startsWith (pathname request) ''/api/''
        \<and> \<not> (isAuthenticated P w request \<and> is_public_only (pathname request))
        \<and> \<not> (\<not> isAuthenticated P w request \<and> is_protected (pathname request))
      \<longrightarrow> middleware P w request = NextResponse_next)"
  by (auto simp: middleware_def is_public_only_def is_protected_def protectedRoutes_def
                 authRoutes_def Let_def)

lemma isAuthenticated_sample: "isAuthenticated sample_platform sample_world (cookie_request p tok_noexp)"
  using simpleVerifyToken_noexp [of sample_world]
  by (simp add: isAuthenticated_def getAuthCookie_def cookie_request_def TOKEN_NAME_def tok_noexp_def hdr_seg_def)

text \<open>The four cases of C5 on concrete requests: an API path, a signed-in visitor on
  \<^verbatim>\<open>/signin\<close>, an anonymous visitor on \<^verbatim>\<open>/dashboard/settings\<close>, a signed-in visitor on
  \<^verbatim>\<open>/dashboard\<close>.\<close>

theorem route_guard_witness:
  "middleware sample_platform sample_world (cookie_request ''/api/auth/me'' tok_noexp) = NextResponse_next
   \<and> middleware sample_platform sample_world (cookie_request ''/signin'' tok_noexp)
       = NextResponse_redirect ''/dashboard''
   \<and> middleware sample_platform sample_world
        \<lparr> pathname = ''/dashboard/settings'', headers = Map.empty, cookies = Map.empty, json_body = None \<rparr>
       = NextResponse_redirect ''/signin''
   \<and> middleware sample_platform sample_world (cookie_request ''/dashboard'' tok_noexp) = NextResponse_next"
proof -
  let ?anon = "\<lparr> pathname = ''/dashboard/settings'', headers = Map.empty, cookies = Map.empty,
                  json_body = None \<rparr>"
  have anon: "\<not> isAuthenticated sample_platform sample_world ?anon"
    by (simp add: isAuthenticated_def getAuthCookie_def)
  show ?thesis
    using route_guard [of "cookie_request ''/api/auth/me'' tok_noexp" sample_platform sample_world]
          route_guard [of "cookie_request ''/signin'' tok_noexp" sample_platform sample_world]
          route_guard [of ?anon sample_platform sample_world]
          route_guard [of "cookie_request ''/dashboard'' tok_noexp" sample_platform sample_world]
          anon isAuthenticated_sample
    by (simp add: cookie_request_def startsWith_def is_public_only_def is_protected_def)
qed

text \<open>
  C6. The constrained check is secret-free and structural: the result of
  \<^verbatim>\<open>simpleVerifyToken\<close> is the same whatever \<^verbatim>\<open>JWT_SECRET\<close> holds (also when it is not
  set); a string that does not split into exactly three dot-separated segments gives
  \<^verbatim>\<open>null\<close>; and a token whose decoded claims lack \<^verbatim>\<open>sub\<close> or lack \<^verbatim>\<open>email\<close> gives
  \<^verbatim>\<open>null\<close>.
\<close>

theorem constrained_check_secret_free_structural:
  "simpleVerifyToken P (w\<lparr> JWT_SECRET := s \<rparr>) token = simpleVerifyToken P w token
   \<and> (length (split_on CHR ''.'' token) \<noteq> 3 \<longrightarrow> simpleVerifyToken P w token = None)
   \<and> (claims_segment P token = Some v \<and> (obj_prop v ''sub'' = None \<or> obj_prop v ''email'' = None)
      \<longrightarrow> simpleVerifyToken P w token = None)"
proof -
  have e: "\<And>x. exp_reached P (w\<lparr> JWT_SECRET := s \<rparr>) x = exp_reached P w x"
    by (simp add: exp_reached_def split: option.splits)
  have a: "simpleVerifyToken P (w\<lparr> JWT_SECRET := s \<rparr>) token = simpleVerifyToken P w token"
    by (auto simp: simpleVerifyToken_claims e split: option.splits json.splits)
  have b: "length (split_on CHR ''.'' token) \<noteq> 3 \<longrightarrow> simpleVerifyToken P w token = None"
    by (simp add: simpleVerifyToken_def Let_def)
  have c: "claims_segment P token = Some v \<and> (obj_prop v ''sub'' = None \<or> obj_prop v ''email'' = None)
      \<longrightarrow> simpleVerifyToken P w token = None"
    by (cases v) (auto simp: simpleVerifyToken_claims dest: truthy_opt_Some)
  from a b c show ?thesis by blast
qed

text \<open>C6 on concrete tokens: with no secret set, on a five-segment string, and on a
  token whose claims have no \<^verbatim>\<open>sub\<close>.\<close>

theorem constrained_check_secret_free_structural_witness:
  "simpleVerifyToken sample_platform (sample_world\<lparr> JWT_SECRET := None \<rparr>) tok_noexp
     = simpleVerifyToken sample_platform sample_world tok_noexp
   \<and> length (split_on CHR ''.'' ''not.a.jwt.at.all'') \<noteq> 3
   \<and> simpleVerifyToken sample_platform sample_world ''not.a.jwt.at.all'' = None
   \<and> claims_segment sample_platform tok_nosub = Some claims_nosub
   \<and> obj_prop claims_nosub ''sub'' = None
   \<and> simpleVerifyToken sample_platform sample_world tok_nosub = None"
  using constrained_check_secret_free_structural
          [where P = sample_platform and w = sample_world and s = None and token = tok_noexp
             and v = claims_nosub]
        constrained_check_secret_free_structural
          [where P = sample_platform and w = sample_world and s = None
             and token = "''not.a.jwt.at.all''" and v = claims_nosub]
        constrained_check_secret_free_structural
          [where P = sample_platform and w = sample_world and s = None and token = tok_nosub
             and v = claims_nosub]
        claims_segment_nosub
  by (simp add: claims_nosub_def)

text \<open>
  C9 as stated fails: a three-segment token whose decoded claims contain \<^verbatim>\<open>sub\<close> and
  \<^verbatim>\<open>email\<close> and no \<^verbatim>\<open>exp\<close> is rejected when the \<^verbatim>\<open>sub\<close> it contains is the empty
  string, because the presence test is \<^verbatim>\<open>!payload.sub\<close>.
\<close>

theorem present_fields_counterexample:
  "length (split_on CHR ''.'' tok_emptysub) = 3
   \<and> claims_segment sample_platform tok_emptysub = Some claims_emptysub
   \<and> obj_prop claims_emptysub ''sub'' = Some (JStr [])
   \<and> obj_prop claims_emptysub ''email'' = Some (JStr ''a@example.com'')
   \<and> obj_prop claims_emptysub ''exp'' = None
   \<and> simpleVerifyToken sample_platform sample_world tok_emptysub = None"
  by (simp add: simpleVerifyToken_claims claims_segment_emptysub)
     (simp add: claims_emptysub_def tok_emptysub_def hdr_seg_def seg_emptysub_def)

text \<open>
  C9, amended. The constrained check skips expiry when the claim is absent: for every
  token of three segments whose decoded claims carry a truthy (for a string: non-empty)
  \<^verbatim>\<open>sub\<close> and \<^verbatim>\<open>email\<close> and no \<^verbatim>\<open>exp\<close> field at all, \<^verbatim>\<open>simpleVerifyToken\<close> returns
  the claims, with \<^verbatim>\<open>exp\<close> undefined, at every time; a request carrying it as its
  session cookie counts as authenticated and passes the route guard on a protected
  path.
\<close>

theorem no_exp_never_expires:
  assumes "claims_segment P token = Some (JObj payload)"
    and "truthy_opt (map_of payload ''sub'')" "truthy_opt (map_of payload ''email'')"
    and "map_of payload ''exp'' = None"
  shows "simpleVerifyToken P w token =
           Some \<lparr> sub = map_of payload ''sub'', email = map_of payload ''email'',
                  name = map_of payload ''name'', iat = map_of payload ''iat'', exp_claim = None \<rparr>
         \<and> (cookies request ''auth_token'' = Some token \<longrightarrow> isAuthenticated P w request)
         \<and> (cookies request ''auth_token'' = Some token \<and> is_protected (pathname request)
            \<longrightarrow> middleware P w request = NextResponse_next)"
proof -
  have sv: "simpleVerifyToken P w token =
           Some \<lparr> sub = map_of payload ''sub'', email = map_of payload ''email'',
                  name = map_of payload ''name'', iat = map_of payload ''iat'', exp_claim = None \<rparr>"
    using assms by (simp add: simpleVerifyToken_claims)
  have ne: "token \<noteq> []" using assms(1) by (rule claims_segment_nonempty)
  have au: "cookies request ''auth_token'' = Some token \<longrightarrow> isAuthenticated P w request"
    using sv ne by (simp add: isAuthenticated_def getAuthCookie_def TOKEN_NAME_def)
  have mw: "cookies request ''auth_token'' = Some token \<and> is_protected (pathname request)
            \<longrightarrow> middleware P w request = NextResponse_next"
    using au protected_not_public [of "pathname request"]
    by (auto simp: middleware_def is_protected_def is_public_only_def protectedRoutes_def
                   authRoutes_def Let_def)
  from sv au mw show ?thesis by blast
qed

text \<open>C9, amended, on the sample token without \<^verbatim>\<open>exp\<close>, in the year 2100.\<close>

theorem no_exp_never_expires_witness:
  "simpleVerifyToken sample_platform (sample_world\<lparr> Date_now := 4102444800000 \<rparr>) tok_noexp =
     Some \<lparr> sub = Some (JStr ''u1''), email = Some (JStr ''a@example.com''),
            name = None, iat = None, exp_claim = None \<rparr>
   \<and> isAuthenticated sample_platform (sample_world\<lparr> Date_now := 4102444800000 \<rparr>)
        (cookie_request ''/dashboard'' tok_noexp)
   \<and> middleware sample_platform (sample_world\<lparr> Date_now := 4102444800000 \<rparr>)
        (cookie_request ''/dashboard'' tok_noexp) = NextResponse_next"
  using no_exp_never_expires
          [of sample_platform tok_noexp
              "[(''sub'', JStr ''u1''), (''email'', JStr ''a@example.com'')]"
              "sample_world\<lparr> Date_now := 4102444800000 \<rparr>" "cookie_request ''/dashboard'' tok_noexp"]
        claims_segment_noexp
  by (simp add: claims_noexp_def cookie_request_def is_protected_def)

lemma constrained_check_rejects_expired:
  assumes "claims_segment P token = Some (JObj payload)"
    and "map_of payload ''exp'' = Some (JNum e)" "e \<noteq> 0" "e * 1000 \<le> of_int (Date_now w)"
  shows "simpleVerifyToken P w token = None"
  using assms by (simp add: simpleVerifyToken_claims exp_reached_def)

section \<open>The token codec\<close>

lemma split_on_no_sep: "c \<notin> set a \<Longrightarrow> split_on c a = [a]"
  by (induction a) auto

lemma split_on_append: "c \<notin> set a \<Longrightarrow> split_on c (a @ c # rest) = a # split_on c rest"
  by (induction a) auto

lemma split_on_three:
  assumes "c \<notin> set h" "c \<notin> set p" "c \<notin> set s"
  shows "split_on c (h @ c # p @ c # s) = [h, p, s]"
  using assms by (simp add: split_on_append split_on_no_sep)

lemma createToken_issues:
  assumes "JWT_SECRET w = Some secret" "secret \<noteq> []" "expires_in_seconds P w = Some n"
    and "iat payload = None" "exp_claim payload = None"
  shows "createToken P w payload = Inr (issued_token P secret (issued_claims w n payload))"
  using assms by (simp add: createToken_def jwt_sign_def issued_token_def issued_claims_def Let_def)

lemma jwt_verify_accepts:
  assumes parts: "split_on CHR ''.'' token = [h, c, s]"
    and dec: "jwt_decode P token = Some (hdr, JObj claims)"
    and alg: "obj_prop hdr ''alg'' = Some (JStr alg)" "alg \<in> set [''HS256'', ''HS384'', ''HS512'']"
    and sig: "s = hmac_sign P alg secret (h @ ''.'' @ c)" "trim s \<noteq> []"
    and nbf: "map_of claims ''nbf'' = None"
    and exp: "map_of claims ''exp'' = Some (JNum e)" "of_int (Date_now w div 1000) < e"
  shows "jwt_verify P w token secret = Some (JObj claims)"
proof -
  have "token \<noteq> []" using parts by auto
  then show ?thesis
    using assms by (simp add: jwt_verify_def Let_def)
qed

lemma jwt_verify_expired:
  assumes "jwt_decode P token = Some (hdr, payload)"
    and "obj_prop payload ''exp'' = Some (JNum e)" "e \<le> of_int (Date_now w div 1000)"
  shows "jwt_verify P w token secret = None"
  using assms by (simp add: jwt_verify_def Let_def split: option.splits json.splits)

lemma verifyToken_rejects_expired:
  assumes "jwt_decode P token = Some (hdr, payload)"
    and "obj_prop payload ''exp'' = Some (JNum e)" "e \<le> of_int (Date_now w div 1000)"
  shows "verifyToken P w token \<noteq> Inr (Some claims)"
  using jwt_verify_expired [OF assms]
  by (simp add: verifyToken_def split: option.splits)

lemma split_tok_exp0: "split_on CHR ''.'' tok_exp0 = [hdr_seg, seg_exp0, sig_exp0]"
  unfolding tok_exp0_def by (simp add: hdr_seg_def seg_exp0_def sig_exp0_def)

lemma split_tok_nosub: "split_on CHR ''.'' tok_nosub = [hdr_seg, seg_nosub, sig_nosub]"
  unfolding tok_nosub_def by (simp add: hdr_seg_def seg_nosub_def sig_nosub_def)

lemma split_tok_day: "split_on CHR ''.'' tok_day = [hdr_seg, seg_day, sig_day]"
  unfolding tok_day_def by (simp add: hdr_seg_def seg_day_def sig_day_def)

lemma split_tok_zero: "split_on CHR ''.'' tok_zero = [hdr_seg, seg_zero, sig_zero]"
  unfolding tok_zero_def by (simp add: hdr_seg_def seg_zero_def sig_zero_def)

lemma tokens_distinct:
  "tok_exp0 \<noteq> tok_nosub" "tok_exp0 \<noteq> tok_day" "tok_exp0 \<noteq> tok_zero"
  "tok_nosub \<noteq> tok_day" "tok_nosub \<noteq> tok_zero" "tok_day \<noteq> tok_zero"
  "tok_nosub \<noteq> tok_exp0" "tok_day \<noteq> tok_exp0" "tok_zero \<noteq> tok_exp0"
  "tok_day \<noteq> tok_nosub" "tok_zero \<noteq> tok_nosub" "tok_zero \<noteq> tok_day"
  by (simp_all add: tok_exp0_def tok_nosub_def tok_day_def tok_zero_def hdr_seg_def
                    seg_exp0_def seg_nosub_def seg_day_def seg_zero_def)

lemma sample_decode:
  "jwt_decode sample_platform tok_exp0 = Some (jose_header, claims_exp0)"
  "jwt_decode sample_platform tok_nosub = Some (jose_header, claims_nosub)"
  "jwt_decode sample_platform tok_day = Some (jose_header, claims_day)"
  "jwt_decode sample_platform tok_zero = Some (jose_header, claims_zero)"
  by (simp_all add: sample_platform_def tokens_distinct)

lemma sample_segments_distinct:
  "seg_exp0 \<noteq> seg_nosub" "seg_exp0 \<noteq> seg_day" "seg_exp0 \<noteq> seg_zero"
  "seg_nosub \<noteq> seg_day" "seg_nosub \<noteq> seg_zero" "seg_day \<noteq> seg_zero"
  "seg_nosub \<noteq> seg_exp0" "seg_day \<noteq> seg_exp0" "seg_zero \<noteq> seg_exp0"
  "seg_day \<noteq> seg_nosub" "seg_zero \<noteq> seg_nosub" "seg_zero \<noteq> seg_day"
  by (simp_all add: seg_exp0_def seg_nosub_def seg_day_def seg_zero_def)

lemma sample_hmac:
  "hmac_sign sample_platform ''HS256'' ''s3cret'' (hdr_seg @ CHR ''.'' # seg_exp0) = sig_exp0"
  "hmac_sign sample_platform ''HS256'' ''s3cret'' (hdr_seg @ CHR ''.'' # seg_nosub) = sig_nosub"
  "hmac_sign sample_platform ''HS256'' ''s3cret'' (hdr_seg @ CHR ''.'' # seg_day) = sig_day"
  "hmac_sign sample_platform ''HS256'' ''s3cret'' (hdr_seg @ CHR ''.'' # seg_zero) = sig_zero"
  by (simp_all add: sample_platform_def sample_segments_distinct)

lemma sample_sigs_not_blank:
  "trim sig_exp0 \<noteq> []" "trim sig_nosub \<noteq> []" "trim sig_day \<noteq> []" "trim sig_zero \<noteq> []"
  by (simp_all add: trim_def is_space_def sig_exp0_def sig_nosub_def sig_day_def sig_zero_def)

lemma verify_exp0: "verifyToken sample_platform sample_world tok_exp0 = Inr None"
proof -
  have "jwt_verify sample_platform sample_world tok_exp0 ''s3cret'' = None"
    by (rule jwt_verify_expired [OF sample_decode(1), of 0]) (simp_all add: claims_exp0_def sample_world_def)
  then show ?thesis by (simp add: verifyToken_def sample_world_def)
qed

lemma verify_nosub: "verifyToken sample_platform sample_world tok_nosub = Inr (Some claims_nosub)"
proof -
  have dec: "jwt_decode sample_platform tok_nosub
          = Some (jose_header, JObj [(''email'', JStr ''a@example.com''), (''iat'', JNum 1700000000),
                                     (''exp'', JNum 1700086400)])"
    by (simp add: sample_decode claims_nosub_def [symmetric])
  have "jwt_verify sample_platform sample_world tok_nosub ''s3cret''
          = Some (JObj [(''email'', JStr ''a@example.com''), (''iat'', JNum 1700000000), (''exp'', JNum 1700086400)])"
    by (rule jwt_verify_accepts [OF split_tok_nosub dec, of "''HS256''" _ 1700086400])
       (simp_all add: sample_hmac sample_sigs_not_blank jose_header_def sample_world_def)
  then show ?thesis by (simp add: verifyToken_def sample_world_def claims_nosub_def)
qed

lemma verify_zero:
  "verifyToken sample_platform (sample_world\<lparr> JWT_EXPIRES_IN := Some ''0'' \<rparr>) tok_zero = Inr None"
proof -
  have "jwt_verify sample_platform (sample_world\<lparr> JWT_EXPIRES_IN := Some ''0'' \<rparr>) tok_zero ''s3cret'' = None"
    by (rule jwt_verify_expired [OF sample_decode(4), of 1700000000])
       (simp_all add: claims_zero_def sample_world_def)
  then show ?thesis by (simp add: verifyToken_def sample_world_def)
qed

lemma sample_claims_distinct:
  "claims_day \<noteq> jose_header" "claims_zero \<noteq> jose_header" "claims_zero \<noteq> claims_day"
  by (simp_all add: claims_day_def claims_zero_def jose_header_def)

lemma sample_encode:
  "b64url_json sample_platform jose_header = hdr_seg"
  "b64url_json sample_platform claims_day = seg_day"
  "b64url_json sample_platform claims_zero = seg_zero"
  by (simp_all add: sample_platform_def sample_claims_distinct)

lemma issued_sample:
  "issued_claims sample_world 86400 u1_payload = claims_day"
  "issued_claims (sample_world\<lparr> JWT_EXPIRES_IN := Some ''0'' \<rparr>) 0 u1_payload = claims_zero"
  by (simp_all add: issued_claims_def u1_payload_def defined_fields_def sample_world_def
                    claims_day_def claims_zero_def)

lemma issued_token_sample:
  "issued_token sample_platform ''s3cret'' claims_day = tok_day"
  "issued_token sample_platform ''s3cret'' claims_zero = tok_zero"
  by (simp_all add: issued_token_def sample_encode sample_hmac tok_day_def tok_zero_def)

lemma sample_lifetime:
  "expires_in_seconds sample_platform sample_world = Some 86400"
  "expires_in_seconds sample_platform (sample_world\<lparr> JWT_EXPIRES_IN := Some ''0'' \<rparr>) = Some 0"
  by (simp_all add: expires_in_seconds_def sample_platform_def sample_world_def)

lemma create_zero:
  "createToken sample_platform (sample_world\<lparr> JWT_EXPIRES_IN := Some ''0'' \<rparr>) u1_payload = Inr tok_zero"
  using createToken_issues [of "sample_world\<lparr> JWT_EXPIRES_IN := Some ''0'' \<rparr>" "''s3cret''" sample_platform 0 u1_payload]
  by (simp add: sample_lifetime issued_sample issued_token_sample) (simp add: sample_world_def u1_payload_def)

lemma no_dots:
  "CHR ''.'' \<notin> set hdr_seg" "CHR ''.'' \<notin> set seg_day" "CHR ''.'' \<notin> set sig_day"
  by (simp_all add: hdr_seg_def seg_day_def sig_day_def)

lemma codec_ok_sample: "codec_ok sample_platform ''s3cret'' claims_day"
proof -
  have "jwt_decode sample_platform (hdr_seg @ ''.'' @ seg_day @ ''.'' @ sig_day) = Some (jose_header, claims_day)"
    using sample_decode(3) by (simp only: tok_day_def)
  then show ?thesis
    by (simp add: codec_ok_def sample_encode sample_hmac no_dots sample_sigs_not_blank)
qed

text \<open>
  C1 as stated fails: with a signing secret configured and \<^verbatim>\<open>JWT_EXPIRES_IN\<close> set to
  \<^verbatim>\<open>0\<close>, \<^verbatim>\<open>createToken\<close> issues a token whose \<^verbatim>\<open>exp\<close> equals its \<^verbatim>\<open>iat\<close>, and
  \<^verbatim>\<open>verifyToken\<close> returns \<^verbatim>\<open>null\<close> for it at once.
\<close>

theorem zero_lifetime_counterexample:
  "JWT_SECRET (sample_world\<lparr> JWT_EXPIRES_IN := Some ''0'' \<rparr>) = Some ''s3cret''
   \<and> createToken sample_platform (sample_world\<lparr> JWT_EXPIRES_IN := Some ''0'' \<rparr>) u1_payload = Inr tok_zero
   \<and> verifyToken sample_platform (sample_world\<lparr> JWT_EXPIRES_IN := Some ''0'' \<rparr>) tok_zero = Inr None"
  by (simp add: create_zero verify_zero) (simp add: sample_world_def)

text \<open>
  C1, amended. Round trip: for every subject and e-mail address (and optional display
  name), when a signing secret is configured, the configured lifetime parses to a
  number of seconds, and verification runs with the same secret before the token's
  expiry (at the moment of creation this asks for a positive lifetime), \<^verbatim>\<open>verifyToken\<close>
  applied to the token produced by \<^verbatim>\<open>createToken({sub, email, name})\<close> returns claims
  whose \<^verbatim>\<open>sub\<close> and \<^verbatim>\<open>email\<close> are the given ones. The assumption \<open>codec_ok\<close> says of
  the package's encoding what base64url and HMAC guarantee.
\<close>

theorem token_roundtrip:
  assumes secret: "JWT_SECRET w = Some secret" "secret \<noteq> []" "JWT_SECRET w' = Some secret"
    and life: "expires_in_seconds P w = Some n"
    and fresh: "Date_now w' div 1000 < Date_now w div 1000 + n"
    and codec: "codec_ok P secret
                  (issued_claims w n \<lparr> sub = Some (JStr s), email = Some (JStr e),
                                        name = map_option JStr nm, iat = None, exp_claim = None \<rparr>)"
  shows "\<exists>token claims.
           createToken P w \<lparr> sub = Some (JStr s), email = Some (JStr e),
                             name = map_option JStr nm, iat = None, exp_claim = None \<rparr> = Inr token
           \<and> verifyToken P w' token = Inr (Some claims)
           \<and> obj_prop claims ''sub'' = Some (JStr s)
           \<and> obj_prop claims ''email'' = Some (JStr e)"
proof -
  let ?p = "\<lparr> sub = Some (JStr s), email = Some (JStr e), name = map_option JStr nm,
              iat = None, exp_claim = None \<rparr>"
  let ?fields = "defined_fields ?p @
           [(''iat'', JNum (of_int (Date_now w div 1000))),
            (''exp'', JNum (of_int (Date_now w div 1000) + of_int n))]"
  let ?h = "b64url_json P jose_header"
  let ?c = "b64url_json P (issued_claims w n ?p)"
  let ?s = "hmac_sign P ''HS256'' secret (?h @ ''.'' @ ?c)"
  let ?token = "issued_token P secret (issued_claims w n ?p)"
  have claims: "issued_claims w n ?p = JObj ?fields" by (simp add: issued_claims_def)
  have created: "createToken P w ?p = Inr ?token"
    using secret life by (intro createToken_issues) simp_all
  have tok: "?token = ?h @ CHR ''.'' # ?c @ CHR ''.'' # ?s"
    by (simp add: issued_token_def)
  have parts: "split_on CHR ''.'' ?token = [?h, ?c, ?s]"
    unfolding tok using codec by (intro split_on_three) (simp_all add: codec_ok_def Let_def)
  have dec: "jwt_decode P ?token = Some (jose_header, JObj ?fields)"
    using codec unfolding tok claims [symmetric] by (simp add: codec_ok_def Let_def)
  have nbf: "map_of ?fields ''nbf'' = None"
    by (cases nm) (simp_all add: defined_fields_def)
  have ex: "map_of ?fields ''exp'' = Some (JNum (of_int (Date_now w div 1000) + of_int n))"
    by (cases nm) (simp_all add: defined_fields_def)
  have before: "(of_int (Date_now w' div 1000) :: rat) < of_int (Date_now w div 1000) + of_int n"
    using fresh by (metis of_int_add of_int_less_iff)
  have "jwt_verify P w' ?token secret = Some (JObj ?fields)"
    using codec by (intro jwt_verify_accepts [OF parts dec _ _ _ _ nbf ex before, of "''HS256''"])
       (simp_all add: jose_header_def codec_ok_def Let_def)
  then have verified: "verifyToken P w' ?token = Inr (Some (JObj ?fields))"
    using secret by (simp add: verifyToken_def)
  have "obj_prop (JObj ?fields) ''sub'' = Some (JStr s)" "obj_prop (JObj ?fields) ''email'' = Some (JStr e)"
    by (simp_all add: defined_fields_def)
  with created verified show ?thesis by blast
qed

text \<open>C1, amended, for the sample user with the default lifetime of 86400 seconds.\<close>

theorem token_roundtrip_witness:
  "\<exists>token claims.
     createToken sample_platform sample_world u1_payload = Inr token
     \<and> verifyToken sample_platform sample_world token = Inr (Some claims)
     \<and> obj_prop claims ''sub'' = Some (JStr ''u1'')
     \<and> obj_prop claims ''email'' = Some (JStr ''a@example.com'')"
  using token_roundtrip [of sample_world "''s3cret''" sample_world sample_platform 86400 "''u1''"
                            "''a@example.com''" None]
        codec_ok_sample issued_sample(1) sample_lifetime(1)
  by (simp add: u1_payload_def) (simp add: sample_world_def)


text \<open>
  C2. Expiry at both tiers. Full verification rejects every token whose \<^verbatim>\<open>exp\<close> is a
  number not after the current second (\<open>verifyToken_rejects_expired\<close>), and the
  constrained check rejects it when that number is not 0
  (\<open>constrained_check_rejects_expired\<close>). The constrained check misses \<^verbatim>\<open>exp\<close> = 0: its
  guard \<^verbatim>\<open>payload.exp && ...\<close> takes the number 0 for an absent claim, so a token whose
  claims carry a truthy \<^verbatim>\<open>sub\<close> and \<^verbatim>\<open>email\<close> and the expiry 0, which is in the past at
  every time, is accepted.
\<close>

theorem expiry_zero_passes_constrained_check:
  assumes "claims_segment P token = Some (JObj payload)"
    and "truthy_opt (map_of payload ''sub'')" "truthy_opt (map_of payload ''email'')"
    and "map_of payload ''exp'' = Some (JNum 0)"
  shows "simpleVerifyToken P w token =
           Some \<lparr> sub = map_of payload ''sub'', email = map_of payload ''email'',
                  name = map_of payload ''name'', iat = map_of payload ''iat'',
                  exp_claim = Some (JNum 0) \<rparr>"
  using assms by (simp add: simpleVerifyToken_claims)

text \<open>C2 on the sample token that expired at the epoch and carries a correct signature,
  checked in November 2023.\<close>

theorem expiry_zero_passes_constrained_check_witness:
  "claims_segment sample_platform tok_exp0 = Some claims_exp0
   \<and> obj_prop claims_exp0 ''exp'' = Some (JNum 0)
   \<and> (0 :: rat) \<le> of_int (Date_now sample_world div 1000)
   \<and> simpleVerifyToken sample_platform sample_world tok_exp0 =
        Some \<lparr> sub = Some (JStr ''u1''), email = Some (JStr ''a@example.com''), name = None,
               iat = None, exp_claim = Some (JNum 0) \<rparr>
   \<and> verifyToken sample_platform sample_world tok_exp0 = Inr None"
  using expiry_zero_passes_constrained_check
          [of sample_platform tok_exp0
              "[(''sub'', JStr ''u1''), (''email'', JStr ''a@example.com''), (''exp'', JNum 0)]"
              sample_world]
        claims_segment_exp0 verify_exp0
  by (simp add: claims_exp0_def) (simp add: sample_world_def)

text \<open>
  C3 as stated fails: the token below has no \<^verbatim>\<open>sub\<close>, a signature that is valid for the
  secret and an \<^verbatim>\<open>exp\<close> a day ahead; \<^verbatim>\<open>verifyToken\<close> returns its claims.
\<close>

theorem unchecked_subject_counterexample:
  "jwt_decode sample_platform tok_nosub = Some (jose_header, claims_nosub)
   \<and> obj_prop claims_nosub ''sub'' = None
   \<and> last (split_on CHR ''.'' tok_nosub)
       = hmac_sign sample_platform ''HS256'' ''s3cret'' (hdr_seg @ ''.'' @ seg_nosub)
   \<and> obj_prop claims_nosub ''exp'' = Some (JNum 1700086400)
   \<and> Date_now sample_world div 1000 = 1700000000
   \<and> verifyToken sample_platform sample_world tok_nosub = Inr (Some claims_nosub)"
  by (simp add: sample_decode verify_nosub split_tok_nosub sample_hmac)
     (simp add: claims_nosub_def sample_world_def)

text \<open>What \<^verbatim>\<open>jwt.verify\<close> accepts, as one condition on the token.\<close>

lemma split_on_length3: "length (split_on c t) = 3 \<Longrightarrow> \<exists>h p s. split_on c t = [h, p, s]"
  by (cases "split_on c t" rule: list.exhaust)
     (auto simp: length_Suc_conv numeral_3_eq_3)

lemma jwt_verify_iff:
  "jwt_verify P w token secret = Some payload \<longleftrightarrow>
     (\<exists>h c s hdr alg.
        split_on CHR ''.'' token = [h, c, s]
        \<and> jwt_decode P token = Some (hdr, payload)
        \<and> obj_prop hdr ''alg'' = Some (JStr alg)
        \<and> alg \<in> set [''HS256'', ''HS384'', ''HS512'']
        \<and> s = hmac_sign P alg secret (h @ ''.'' @ c) \<and> trim s \<noteq> []
        \<and> payload \<noteq> JNull \<and> nbf_passed w payload \<and> exp_ahead w payload)"
proof
  assume v: "jwt_verify P w token secret = Some payload"
  then have ne: "token \<noteq> []" and len: "length (split_on CHR ''.'' token) = 3"
    by (auto simp: jwt_verify_def Let_def split: if_splits)
  then obtain h c s where parts: "split_on CHR ''.'' token = [h, c, s]"
    using split_on_length3 by blast
  from v ne parts obtain hdr p where dec: "jwt_decode P token = Some (hdr, p)"
    by (cases "jwt_decode P token") (auto simp: jwt_verify_def Let_def)
  from v ne parts dec obtain alg where alg: "obj_prop hdr ''alg'' = Some (JStr alg)"
    by (auto simp: jwt_verify_def Let_def split: if_splits option.splits json.splits)
  from v ne parts dec alg have rest:
     "trim s \<noteq> []" "alg \<in> set [''HS256'', ''HS384'', ''HS512'']"
     "s = hmac_sign P alg secret (h @ ''.'' @ c)" "p \<noteq> JNull"
    by (auto simp: jwt_verify_def Let_def split: if_splits)
  from v ne parts dec alg rest have pp: "p = payload \<and> nbf_passed w p \<and> exp_ahead w p"
    by (auto simp: jwt_verify_def Let_def nbf_passed_def exp_ahead_def
             split: if_splits option.splits json.splits)
  show "\<exists>h c s hdr alg.
        split_on CHR ''.'' token = [h, c, s]
        \<and> jwt_decode P token = Some (hdr, payload)
        \<and> obj_prop hdr ''alg'' = Some (JStr alg)
        \<and> alg \<in> set [''HS256'', ''HS384'', ''HS512'']
        \<and> s = hmac_sign P alg secret (h @ ''.'' @ c) \<and> trim s \<noteq> []
        \<and> payload \<noteq> JNull \<and> nbf_passed w payload \<and> exp_ahead w payload"
    using parts dec alg rest pp by blast
next
  assume "\<exists>h c s hdr alg.
        split_on CHR ''.'' token = [h, c, s]
        \<and> jwt_decode P token = Some (hdr, payload)
        \<and> obj_prop hdr ''alg'' = Some (JStr alg)
        \<and> alg \<in> set [''HS256'', ''HS384'', ''HS512'']
        \<and> s = hmac_sign P alg secret (h @ ''.'' @ c) \<and> trim s \<noteq> []
        \<and> payload \<noteq> JNull \<and> nbf_passed w payload \<and> exp_ahead w payload"
  then obtain h c s hdr alg where
        parts: "split_on CHR ''.'' token = [h, c, s]"
        and dec: "jwt_decode P token = Some (hdr, payload)"
        and alg: "obj_prop hdr ''alg'' = Some (JStr alg)"
        and rest: "alg \<in> set [''HS256'', ''HS384'', ''HS512'']"
          "s = hmac_sign P alg secret (h @ ''.'' @ c)" "trim s \<noteq> []"
          "payload \<noteq> JNull" "nbf_passed w payload" "exp_ahead w payload"
    by blast
  have ne: "token \<noteq> []" using parts by auto
  show "jwt_verify P w token secret = Some payload"
    using ne parts dec alg rest
    by (auto simp: jwt_verify_def Let_def nbf_passed_def exp_ahead_def
             split: option.splits json.splits)
qed


lemma split_tok_noemail: "split_on CHR ''.'' tok_noemail = [hdr_seg, seg_noemail, sig_noemail]"
  unfolding tok_noemail_def by (simp add: hdr_seg_def seg_noemail_def sig_noemail_def)

lemma tok_noemail_distinct:
  "tok_noemail \<noteq> tok_exp0" "tok_noemail \<noteq> tok_nosub" "tok_noemail \<noteq> tok_day" "tok_noemail \<noteq> tok_zero"
  by (simp_all add: tok_exp0_def tok_nosub_def tok_day_def tok_zero_def tok_noemail_def hdr_seg_def
                    seg_exp0_def seg_nosub_def seg_day_def seg_zero_def seg_noemail_def)

lemma sample_decode_noemail:
  "jwt_decode sample_platform tok_noemail = Some (jose_header, claims_noemail)"
  by (simp add: sample_platform_def tok_noemail_distinct)

lemma seg_noemail_distinct:
  "seg_noemail \<noteq> seg_exp0" "seg_noemail \<noteq> seg_nosub" "seg_noemail \<noteq> seg_day" "seg_noemail \<noteq> seg_zero"
  by (simp_all add: seg_exp0_def seg_nosub_def seg_day_def seg_zero_def seg_noemail_def)

lemma sample_hmac_noemail:
  "hmac_sign sample_platform ''HS256'' ''s3cret'' (hdr_seg @ CHR ''.'' # seg_noemail) = sig_noemail"
  by (simp add: sample_platform_def seg_noemail_distinct)

lemma sig_noemail_not_blank: "trim sig_noemail \<noteq> []"
  by (simp add: trim_def is_space_def sig_noemail_def)

lemma sample_times:
  "nbf_passed sample_world claims_nosub" "exp_ahead sample_world claims_nosub"
  "nbf_passed sample_world claims_noemail" "exp_ahead sample_world claims_noemail"
  by (simp_all add: nbf_passed_def exp_ahead_def claims_nosub_def claims_noemail_def sample_world_def)

lemma sample_cookie:
  "request_token (cookie_request p tok_nosub) = Some tok_nosub"
  "request_token (cookie_request p tok_noemail) = Some tok_noemail"
  by (simp_all add: request_token_def getAuthCookie_def cookie_request_def TOKEN_NAME_def
                    tok_nosub_def tok_noemail_def hdr_seg_def)

text \<open>
  C3, amended. With a secret configured, \<^verbatim>\<open>verifyToken\<close> returns a payload exactly when
  the token has three segments, decodes to that payload, names one of the HMAC algorithms
  in its header, carries a non-blank signature equal to the HMAC of the first two segments
  under the secret, and its payload is not \<^verbatim>\<open>null\<close>, has an \<^verbatim>\<open>nbf\<close> (if any) that is a number
  not after the current second and an \<^verbatim>\<open>exp\<close> (if any) that is a number after the current
  second. Neither \<^verbatim>\<open>sub\<close> nor \<^verbatim>\<open>email\<close> occurs in that condition. The status handler, given
  a token that \<^verbatim>\<open>verifyToken\<close> accepts with an object of claims, answers 200 when \<^verbatim>\<open>sub\<close> is
  truthy, whatever \<^verbatim>\<open>email\<close> is, and 401 otherwise.
\<close>

theorem verification_then_subject_check:
  "(JWT_SECRET w = Some secret \<and> secret \<noteq> []
    \<longrightarrow> (verifyToken P w token = Inr (Some payload) \<longleftrightarrow>
           (\<exists>h c s hdr alg.
              split_on CHR ''.'' token = [h, c, s]
              \<and> jwt_decode P token = Some (hdr, payload)
              \<and> obj_prop hdr ''alg'' = Some (JStr alg)
              \<and> alg \<in> set [''HS256'', ''HS384'', ''HS512'']
              \<and> s = hmac_sign P alg secret (h @ ''.'' @ c) \<and> trim s \<noteq> []
              \<and> payload \<noteq> JNull \<and> nbf_passed w payload \<and> exp_ahead w payload)))
   \<and> (request_token request = Some token \<and> verifyToken P w token = Inr (Some (JObj claims))
    \<longrightarrow> (if truthy_opt (map_of claims ''sub'')
         then status (check_GET P w request) = 200
         else check_GET P w request = unauthenticated \<and> status (check_GET P w request) = 401))"
proof (rule conjI)
  show "JWT_SECRET w = Some secret \<and> secret \<noteq> []
    \<longrightarrow> (verifyToken P w token = Inr (Some payload) \<longleftrightarrow>
           (\<exists>h c s hdr alg.
              split_on CHR ''.'' token = [h, c, s]
              \<and> jwt_decode P token = Some (hdr, payload)
              \<and> obj_prop hdr ''alg'' = Some (JStr alg)
              \<and> alg \<in> set [''HS256'', ''HS384'', ''HS512'']
              \<and> s = hmac_sign P alg secret (h @ ''.'' @ c) \<and> trim s \<noteq> []
              \<and> payload \<noteq> JNull \<and> nbf_passed w payload \<and> exp_ahead w payload))"
  proof
    assume h: "JWT_SECRET w = Some secret \<and> secret \<noteq> []"
    then have "verifyToken P w token = Inr (jwt_verify P w token secret)"
      by (simp add: verifyToken_def)
    then show "verifyToken P w token = Inr (Some payload) \<longleftrightarrow>
           (\<exists>h c s hdr alg.
              split_on CHR ''.'' token = [h, c, s]
              \<and> jwt_decode P token = Some (hdr, payload)
              \<and> obj_prop hdr ''alg'' = Some (JStr alg)
              \<and> alg \<in> set [''HS256'', ''HS384'', ''HS512'']
              \<and> s = hmac_sign P alg secret (h @ ''.'' @ c) \<and> trim s \<noteq> []
              \<and> payload \<noteq> JNull \<and> nbf_passed w payload \<and> exp_ahead w payload)"
      using jwt_verify_iff [of P w token secret payload] by simp
  qed
next
  show "request_token request = Some token \<and> verifyToken P w token = Inr (Some (JObj claims))
    \<longrightarrow> (if truthy_opt (map_of claims ''sub'')
         then status (check_GET P w request) = 200
         else check_GET P w request = unauthenticated \<and> status (check_GET P w request) = 401)"
    by (simp add: check_GET_def unauthenticated_def NextResponse_json_def)
qed

text \<open>
  C3, amended, on two signed and unexpired sample tokens: the one without \<^verbatim>\<open>sub\<close> is
  accepted by \<^verbatim>\<open>verifyToken\<close> and answered 401 by the status handler; the one without
  \<^verbatim>\<open>email\<close> is accepted by \<^verbatim>\<open>verifyToken\<close> and answered 200.
\<close>

theorem verification_then_subject_check_witness:
  "verifyToken sample_platform sample_world tok_nosub = Inr (Some claims_nosub)
   \<and> obj_prop claims_nosub ''sub'' = None
   \<and> check_GET sample_platform sample_world (cookie_request ''/api/auth/check'' tok_nosub) = unauthenticated
   \<and> status (check_GET sample_platform sample_world (cookie_request ''/api/auth/check'' tok_nosub)) = 401
   \<and> verifyToken sample_platform sample_world tok_noemail = Inr (Some claims_noemail)
   \<and> obj_prop claims_noemail ''email'' = None
   \<and> status (check_GET sample_platform sample_world (cookie_request ''/api/auth/check'' tok_noemail)) = 200"
proof -
  let ?nosub = "[(''email'', JStr ''a@example.com''), (''iat'', JNum 1700000000), (''exp'', JNum 1700086400)]"
  let ?noemail = "[(''sub'', JStr ''u1''), (''iat'', JNum 1700000000), (''exp'', JNum 1700086400)]"
  have c: "claims_nosub = JObj ?nosub" "claims_noemail = JObj ?noemail"
    by (simp_all add: claims_nosub_def claims_noemail_def)
  have env: "JWT_SECRET sample_world = Some ''s3cret''" by (simp add: sample_world_def)
  have alg: "obj_prop jose_header ''alg'' = Some (JStr ''HS256'')" by (simp add: jose_header_def)
  have "split_on CHR ''.'' tok_nosub = [hdr_seg, seg_nosub, sig_nosub]
              \<and> jwt_decode sample_platform tok_nosub = Some (jose_header, claims_nosub)
              \<and> obj_prop jose_header ''alg'' = Some (JStr ''HS256'')
              \<and> ''HS256'' \<in> set [''HS256'', ''HS384'', ''HS512'']
              \<and> sig_nosub = hmac_sign sample_platform ''HS256'' ''s3cret'' (hdr_seg @ ''.'' @ seg_nosub)
              \<and> trim sig_nosub \<noteq> []
              \<and> claims_nosub \<noteq> JNull \<and> nbf_passed sample_world claims_nosub
              \<and> exp_ahead sample_world claims_nosub"
    by (simp add: split_tok_nosub sample_decode sample_hmac sample_sigs_not_blank sample_times alg)
       (simp add: claims_nosub_def)
  then have r1: "\<exists>h c s hdr alg.
              split_on CHR ''.'' tok_nosub = [h, c, s]
              \<and> jwt_decode sample_platform tok_nosub = Some (hdr, claims_nosub)
              \<and> obj_prop hdr ''alg'' = Some (JStr alg)
              \<and> alg \<in> set [''HS256'', ''HS384'', ''HS512'']
              \<and> s = hmac_sign sample_platform alg ''s3cret'' (h @ ''.'' @ c) \<and> trim s \<noteq> []
              \<and> claims_nosub \<noteq> JNull \<and> nbf_passed sample_world claims_nosub
              \<and> exp_ahead sample_world claims_nosub"
    by blast
  have "split_on CHR ''.'' tok_noemail = [hdr_seg, seg_noemail, sig_noemail]
              \<and> jwt_decode sample_platform tok_noemail = Some (jose_header, claims_noemail)
              \<and> obj_prop jose_header ''alg'' = Some (JStr ''HS256'')
              \<and> ''HS256'' \<in> set [''HS256'', ''HS384'', ''HS512'']
              \<and> sig_noemail = hmac_sign sample_platform ''HS256'' ''s3cret'' (hdr_seg @ ''.'' @ seg_noemail)
              \<and> trim sig_noemail \<noteq> []
              \<and> claims_noemail \<noteq> JNull \<and> nbf_passed sample_world claims_noemail
              \<and> exp_ahead sample_world claims_noemail"
    by (simp add: split_tok_noemail sample_decode_noemail sample_hmac_noemail sig_noemail_not_blank
                  sample_times alg)
       (simp add: claims_noemail_def)
  then have r2: "\<exists>h c s hdr alg.
              split_on CHR ''.'' tok_noemail = [h, c, s]
              \<and> jwt_decode sample_platform tok_noemail = Some (hdr, claims_noemail)
              \<and> obj_prop hdr ''alg'' = Some (JStr alg)
              \<and> alg \<in> set [''HS256'', ''HS384'', ''HS512'']
              \<and> s = hmac_sign sample_platform alg ''s3cret'' (h @ ''.'' @ c) \<and> trim s \<noteq> []
              \<and> claims_noemail \<noteq> JNull \<and> nbf_passed sample_world claims_noemail
              \<and> exp_ahead sample_world claims_noemail"
    by blast
  have v1: "verifyToken sample_platform sample_world tok_nosub = Inr (Some claims_nosub)"
    using verification_then_subject_check
            [where w = sample_world and secret = "''s3cret''" and P = sample_platform
               and token = tok_nosub and payload = claims_nosub]
          env r1 by simp
  have v2: "verifyToken sample_platform sample_world tok_noemail = Inr (Some claims_noemail)"
    using verification_then_subject_check
            [where w = sample_world and secret = "''s3cret''" and P = sample_platform
               and token = tok_noemail and payload = claims_noemail]
          env r2 by simp
  have g1: "check_GET sample_platform sample_world (cookie_request ''/api/auth/check'' tok_nosub) = unauthenticated
            \<and> status (check_GET sample_platform sample_world (cookie_request ''/api/auth/check'' tok_nosub)) = 401"
    using verification_then_subject_check
            [where w = sample_world and P = sample_platform and token = tok_nosub
               and request = "cookie_request ''/api/auth/check'' tok_nosub" and claims = ?nosub]
          v1 sample_cookie(1) unfolding c by (simp add: unauthenticated_def NextResponse_json_def)
  have g2: "status (check_GET sample_platform sample_world (cookie_request ''/api/auth/check'' tok_noemail)) = 200"
    using verification_then_subject_check
            [where w = sample_world and P = sample_platform and token = tok_noemail
               and request = "cookie_request ''/api/auth/check'' tok_noemail" and claims = ?noemail]
          v2 sample_cookie(2) unfolding c by (simp add: unauthenticated_def NextResponse_json_def)
  from v1 v2 g1 g2 show ?thesis by (simp add: c unauthenticated_def NextResponse_json_def)
qed

section \<open>The login handler: rate limit first, cookies, client identity\<close>

lemma login_POST_limiters:
  "snd (login_POST P w findUnique limiters request)
     = snd (checkRateLimit w limiters (''login_'' @ index_getClientIp request))"
  by (simp add: login_POST_def Let_def split: prod.splits rate_check.splits option.splits)


lemma login_POST_allowed:
  assumes "checkRateLimit w limiters (''login_'' @ index_getClientIp request) = (Resolved None, ls)"
  shows "login_POST P w findUnique limiters request = (Responded (login_credentials P w findUnique request), ls)"
  using assms by (simp add: login_POST_def Let_def)

lemma checkRateLimit_response:
  "fst (checkRateLimit w limiters ident) = Resolved (Some r) \<Longrightarrow> r = too_many_attempts"
  by (auto simp: checkRateLimit_def Let_def split: prod.splits removal.splits if_splits)

lemma checkRateLimit_response':
  "checkRateLimit w limiters ident = (Resolved (Some r), ls) \<Longrightarrow> status r = 429"
  using checkRateLimit_response [of w limiters ident r]
  by (simp add: too_many_attempts_def NextResponse_json_def)


lemma statuses:
  "status too_many_attempts = 429" "status invalid_credentials = 401" "status login_failed = 500"
  by (simp_all add: too_many_attempts_def invalid_credentials_def login_failed_def NextResponse_json_def)

lemma bare_login_ip: "index_getClientIp bare_login = ''unknown-ip''"
  by (simp add: index_getClientIp_def header_value_def bare_login_def login_request_def)

lemma spent_limiter_denies:
  "checkRateLimit (at_ms 500) [''login_unknown-ip'' \<mapsto> spent_limiter] ''login_unknown-ip''
     = (Resolved (Some too_many_attempts), [''login_unknown-ip'' \<mapsto> spent_limiter])"
  by (simp add: checkRateLimit_def RateLimiter_removeTokens_def spent_limiter_def at_ms_def
                sample_world_def Let_def)


lemma login_credentials_ok:
  assumes "status (login_credentials P w findUnique request) = 200"
  shows "(\<exists>token. res_cookies (login_credentials P w findUnique request) ''auth_token''
            = Some \<lparr> cvalue = token, httpOnly = True, secure = (NODE_ENV w = Some ''production''),
                     maxAge = expires_in_seconds P w, path = ''/'', sameSite = ''lax'' \<rparr>)
         \<and> res_cookies (login_credentials P w findUnique request) ''auth_state''
            = Some \<lparr> cvalue = ''authenticated'', httpOnly = False,
                     secure = (NODE_ENV w = Some ''production''),
                     maxAge = expires_in_seconds P w, path = ''/'', sameSite = ''lax'' \<rparr>"
  using assms
  by (auto simp: login_credentials_def login_failed_def invalid_credentials_def NextResponse_json_def
                 cookies_set_def setAuthCookie_def COOKIE_MAX_AGE_def TOKEN_NAME_def
           split: option.splits sum.splits prod.splits if_splits)

text \<open>
  C8, amended. \<^verbatim>\<open>setAuthCookie\<close> sets the primary \<^verbatim>\<open>auth_token\<close> cookie with the token as
  its value, \<^verbatim>\<open>httpOnly\<close> true, \<^verbatim>\<open>sameSite\<close> lax, path \<^verbatim>\<open>/\<close>, \<^verbatim>\<open>maxAge\<close> equal to the
  configured token lifetime (the number \<^verbatim>\<open>createToken\<close> passes as \<^verbatim>\<open>expiresIn\<close>), and
  \<^verbatim>\<open>secure\<close> exactly in production. The secondary \<^verbatim>\<open>auth_state\<close> marker cookie is set by
  the login handler: a login answered with 200 carries both cookies on the same
  response.
\<close>

theorem attach_sets_session_cookie:
  "res_cookies (setAuthCookie P w token r) ''auth_token''
     = Some \<lparr> cvalue = token, httpOnly = True, secure = (NODE_ENV w = Some ''production''),
              maxAge = expires_in_seconds P w, path = ''/'', sameSite = ''lax'' \<rparr>
   \<and> (fst (login_POST P w findUnique limiters request) = Responded resp \<and> status resp = 200
      \<longrightarrow> (\<exists>t. res_cookies resp ''auth_token''
                  = Some \<lparr> cvalue = t, httpOnly = True, secure = (NODE_ENV w = Some ''production''),
                           maxAge = expires_in_seconds P w, path = ''/'', sameSite = ''lax'' \<rparr>)
          \<and> res_cookies resp ''auth_state''
                  = Some \<lparr> cvalue = ''authenticated'', httpOnly = False,
                           secure = (NODE_ENV w = Some ''production''),
                           maxAge = expires_in_seconds P w, path = ''/'', sameSite = ''lax'' \<rparr>)"
proof (rule conjI)
  show "res_cookies (setAuthCookie P w token r) ''auth_token''
     = Some \<lparr> cvalue = token, httpOnly = True, secure = (NODE_ENV w = Some ''production''),
              maxAge = expires_in_seconds P w, path = ''/'', sameSite = ''lax'' \<rparr>"
    by (simp add: setAuthCookie_def cookies_set_def TOKEN_NAME_def COOKIE_MAX_AGE_def)
next
  show "fst (login_POST P w findUnique limiters request) = Responded resp \<and> status resp = 200
      \<longrightarrow> (\<exists>t. res_cookies resp ''auth_token''
                  = Some \<lparr> cvalue = t, httpOnly = True, secure = (NODE_ENV w = Some ''production''),
                           maxAge = expires_in_seconds P w, path = ''/'', sameSite = ''lax'' \<rparr>)
          \<and> res_cookies resp ''auth_state''
                  = Some \<lparr> cvalue = ''authenticated'', httpOnly = False,
                           secure = (NODE_ENV w = Some ''production''),
                           maxAge = expires_in_seconds P w, path = ''/'', sameSite = ''lax'' \<rparr>"
  proof
    assume h: "fst (login_POST P w findUnique limiters request) = Responded resp \<and> status resp = 200"
    then have "resp = login_credentials P w findUnique request"
      by (auto simp: login_POST_def Let_def statuses dest: checkRateLimit_response'
               split: prod.splits rate_check.splits option.splits)
    with h login_credentials_ok [of P w findUnique request]
    show "(\<exists>t. res_cookies resp ''auth_token''
                  = Some \<lparr> cvalue = t, httpOnly = True, secure = (NODE_ENV w = Some ''production''),
                           maxAge = expires_in_seconds P w, path = ''/'', sameSite = ''lax'' \<rparr>)
          \<and> res_cookies resp ''auth_state''
                  = Some \<lparr> cvalue = ''authenticated'', httpOnly = False,
                           secure = (NODE_ENV w = Some ''production''),
                           maxAge = expires_in_seconds P w, path = ''/'', sameSite = ''lax'' \<rparr>"
      by simp
  qed
qed

text \<open>
  C8 as stated fails: \<^verbatim>\<open>setAuthCookie\<close> sets the \<^verbatim>\<open>auth_token\<close> cookie and no
  \<^verbatim>\<open>auth_state\<close> cookie.
\<close>

theorem marker_cookie_counterexample:
  "res_cookies (setAuthCookie sample_platform sample_world tok_day (NextResponse_json JNull 200))
     ''auth_token'' \<noteq> None
   \<and> res_cookies (setAuthCookie sample_platform sample_world tok_day (NextResponse_json JNull 200))
     ''auth_state'' = None"
  by (simp add: setAuthCookie_def cookies_set_def TOKEN_NAME_def NextResponse_json_def)


lemma create_day: "createToken sample_platform sample_world u1_payload = Inr tok_day"
  using createToken_issues [of sample_world "''s3cret''" sample_platform 86400 u1_payload]
  by (simp add: sample_lifetime issued_sample issued_token_sample) (simp add: sample_world_def u1_payload_def)

lemma good_login_credentials:
  "login_credentials sample_platform sample_world sample_store good_login =
     cookies_set ''auth_state''
       \<lparr> cvalue = ''authenticated'', httpOnly = False, secure = True, maxAge = Some 86400,
         path = ''/'', sameSite = ''lax'' \<rparr>
       (setAuthCookie sample_platform sample_world tok_day
          (NextResponse_json
             (JObj [(''success'', JBool True),
                    (''user'', JObj [(''id'', JStr ''u1''), (''email'', JStr ''a@example.com''),
                                     (''name'', JNull)]),
                    (''isAuthenticated'', JBool True)]) 200))"
proof -
  have b: "json_body good_login = Some (JObj [(''email'', JStr ''a@example.com''), (''password'', JStr ''correct horse'')])"
    by (simp add: good_login_def login_request_def)
  have sp: "loginSchema_safeParse sample_platform
              (JObj [(''email'', JStr ''a@example.com''), (''password'', JStr ''correct horse'')])
            = Some (''a@example.com'', ''correct horse'')"
    by (simp add: loginSchema_safeParse_def sample_platform_def)
  have st: "sample_store ''a@example.com'' = Inr (Some sample_user)" by (simp add: sample_store_def)
  have pw: "bcrypt_compare sample_platform ''correct horse'' (hashedPassword sample_user)"
    by (simp add: sample_platform_def sample_user_def)
  have env: "NODE_ENV sample_world = Some ''production''" by (simp add: sample_world_def)
  have u: "user_id sample_user = ''u1''" "user_email sample_user = ''a@example.com''" "user_name sample_user = None"
    by (simp_all add: sample_user_def)
  show ?thesis
    unfolding login_credentials_def b
    by (simp add: sp st pw create_day [unfolded u1_payload_def] sample_lifetime env u)
qed

lemma good_login_response:
  "fst (login_POST sample_platform sample_world sample_store Map.empty good_login)
     = Responded (login_credentials sample_platform sample_world sample_store good_login)"
proof -
  obtain l where "checkRateLimit sample_world Map.empty (''login_'' @ index_getClientIp good_login)
                    = (Resolved None, Map.empty(''login_'' @ index_getClientIp good_login \<mapsto> l))"
    using checkRateLimit_fresh [of Map.empty "''login_'' @ index_getClientIp good_login" sample_world]
    by auto
  from login_POST_allowed [OF this] show ?thesis by simp
qed

text \<open>C8, amended, on a token and on the login of the sample user with the right
  password.\<close>

theorem attach_sets_session_cookie_witness:
  "res_cookies (setAuthCookie sample_platform sample_world tok_day (NextResponse_json JNull 200))
     ''auth_token''
     = Some \<lparr> cvalue = tok_day, httpOnly = True, secure = True, maxAge = Some 86400,
              path = ''/'', sameSite = ''lax'' \<rparr>
   \<and> status (login_credentials sample_platform sample_world sample_store good_login) = 200
   \<and> (\<exists>t. res_cookies (login_credentials sample_platform sample_world sample_store good_login)
             ''auth_token''
           = Some \<lparr> cvalue = t, httpOnly = True, secure = True, maxAge = Some 86400,
                    path = ''/'', sameSite = ''lax'' \<rparr>)
   \<and> res_cookies (login_credentials sample_platform sample_world sample_store good_login)
        ''auth_state''
       = Some \<lparr> cvalue = ''authenticated'', httpOnly = False, secure = True, maxAge = Some 86400,
                path = ''/'', sameSite = ''lax'' \<rparr>"
proof -
  have s: "status (login_credentials sample_platform sample_world sample_store good_login) = 200"
    by (simp add: good_login_credentials cookies_set_def setAuthCookie_def NextResponse_json_def)
  have env: "NODE_ENV sample_world = Some ''production''" by (simp add: sample_world_def)
  show ?thesis
    using attach_sets_session_cookie
            [where P = sample_platform and w = sample_world and token = tok_day
               and r = "NextResponse_json JNull 200" and findUnique = sample_store
               and limiters = Map.empty and request = good_login
               and resp = "login_credentials sample_platform sample_world sample_store good_login"]
          good_login_response s
    by (simp add: sample_lifetime env)
qed

lemma checkRateLimit_other:
  "k \<noteq> ident \<Longrightarrow> snd (checkRateLimit w limiters ident) k = limiters k"
  by (simp add: checkRateLimit_def Let_def split: prod.splits removal.splits)

lemma checkRateLimit_own:
  "snd (checkRateLimit w limiters ident) ident \<noteq> None"
  by (simp add: checkRateLimit_def Let_def split: prod.splits removal.splits)

text \<open>
  C10, amended. \<^verbatim>\<open>getClientIp\<close> of rate-limiter.ts returns the trimmed first
  comma-separated entry of a non-empty \<^verbatim>\<open>x-forwarded-for\<close> header, otherwise the trimmed
  value of a non-empty \<^verbatim>\<open>cf-connecting-ip\<close> header, otherwise \<^verbatim>\<open>unknown\<close>. The login
  handler calls the \<^verbatim>\<open>getClientIp\<close> of lib/auth/index.ts instead, which does not read
  \<^verbatim>\<open>cf-connecting-ip\<close> and falls back to \<^verbatim>\<open>unknown-ip\<close>: every login request without a
  non-empty \<^verbatim>\<open>x-forwarded-for\<close> header is rate-limited under the one shared identifier
  \<^verbatim>\<open>login_unknown-ip\<close>, whose limiter exists afterwards, and no other limiter changes.
\<close>

theorem client_ip_and_login_identity:
  "(header_value request ''x-forwarded-for'' = Some f
      \<longrightarrow> rate_limiter_getClientIp request = trim (first_part CHR '','' f))
   \<and> (header_value request ''x-forwarded-for'' = None \<and> header_value request ''cf-connecting-ip'' = Some c
      \<longrightarrow> rate_limiter_getClientIp request = trim c)
   \<and> (header_value request ''x-forwarded-for'' = None \<and> header_value request ''cf-connecting-ip'' = None
      \<longrightarrow> rate_limiter_getClientIp request = ''unknown'')
   \<and> (header_value request ''x-forwarded-for'' = None
      \<longrightarrow> snd (login_POST P w findUnique limiters request)
            = snd (checkRateLimit w limiters ''login_unknown-ip'')
          \<and> snd (login_POST P w findUnique limiters request) ''login_unknown-ip'' \<noteq> None
          \<and> (k \<noteq> ''login_unknown-ip'' \<longrightarrow> snd (login_POST P w findUnique limiters request) k = limiters k))"
proof -
  have a: "header_value request ''x-forwarded-for'' = Some f
      \<longrightarrow> rate_limiter_getClientIp request = trim (first_part CHR '','' f)"
    by (simp add: rate_limiter_getClientIp_def)
  have b: "header_value request ''x-forwarded-for'' = None \<and> header_value request ''cf-connecting-ip'' = Some c
      \<longrightarrow> rate_limiter_getClientIp request = trim c"
    by (simp add: rate_limiter_getClientIp_def)
  have c: "header_value request ''x-forwarded-for'' = None \<and> header_value request ''cf-connecting-ip'' = None
      \<longrightarrow> rate_limiter_getClientIp request = ''unknown''"
    by (simp add: rate_limiter_getClientIp_def)
  have d: "header_value request ''x-forwarded-for'' = None
      \<longrightarrow> snd (login_POST P w findUnique limiters request)
            = snd (checkRateLimit w limiters ''login_unknown-ip'')
          \<and> snd (login_POST P w findUnique limiters request) ''login_unknown-ip'' \<noteq> None
          \<and> (k \<noteq> ''login_unknown-ip'' \<longrightarrow> snd (login_POST P w findUnique limiters request) k = limiters k)"
  proof
    assume "header_value request ''x-forwarded-for'' = None"
    then have "''login_'' @ index_getClientIp request = ''login_unknown-ip''"
      by (simp add: index_getClientIp_def)
    then have e: "snd (login_POST P w findUnique limiters request)
            = snd (checkRateLimit w limiters ''login_unknown-ip'')"
      using login_POST_limiters [of P w findUnique limiters request] by simp
    show "snd (login_POST P w findUnique limiters request)
            = snd (checkRateLimit w limiters ''login_unknown-ip'')
          \<and> snd (login_POST P w findUnique limiters request) ''login_unknown-ip'' \<noteq> None
          \<and> (k \<noteq> ''login_unknown-ip'' \<longrightarrow> snd (login_POST P w findUnique limiters request) k = limiters k)"
      unfolding e using checkRateLimit_own [of w limiters "''login_unknown-ip''"]
        checkRateLimit_other [of k "''login_unknown-ip''" w limiters]
      by blast
  qed
  from a b c d show ?thesis by blast
qed

lemma bare_login_headers:
  "header_value bare_login ''x-forwarded-for'' = None" "header_value bare_login ''cf-connecting-ip'' = None"
  by (simp_all add: header_value_def bare_login_def login_request_def)

text \<open>
  C10 as stated fails: after a login request that carries neither header, there is no
  limiter under \<^verbatim>\<open>login_unknown\<close>; the one that was created is under
  \<^verbatim>\<open>login_unknown-ip\<close>.
\<close>

theorem login_identity_counterexample:
  "header_value bare_login ''x-forwarded-for'' = None
   \<and> header_value bare_login ''cf-connecting-ip'' = None
   \<and> snd (login_POST sample_platform sample_world sample_store Map.empty bare_login) ''login_unknown'' = None
   \<and> snd (login_POST sample_platform sample_world sample_store Map.empty bare_login) ''login_unknown-ip'' \<noteq> None"
proof -
  have e: "snd (login_POST sample_platform sample_world sample_store Map.empty bare_login)
            = snd (checkRateLimit sample_world Map.empty ''login_unknown-ip'')"
    using login_POST_limiters [of sample_platform sample_world sample_store Map.empty bare_login]
    by (simp add: bare_login_ip)
  have o: "snd (checkRateLimit sample_world Map.empty ''login_unknown-ip'') ''login_unknown'' = None"
    using checkRateLimit_other [of "''login_unknown''" "''login_unknown-ip''" sample_world Map.empty]
    by simp
  show ?thesis
    unfolding e using o checkRateLimit_own [of sample_world Map.empty "''login_unknown-ip''"]
    by (simp add: bare_login_headers)
qed

text \<open>C10, amended, on a request behind a proxy, one behind Cloudflare only, and one
  with neither header.\<close>

theorem client_ip_and_login_identity_witness:
  "rate_limiter_getClientIp forwarded_request = ''203.0.113.7''
   \<and> rate_limiter_getClientIp cloudflare_request = ''198.51.100.2''
   \<and> rate_limiter_getClientIp bare_login = ''unknown''
   \<and> snd (login_POST sample_platform sample_world sample_store Map.empty cloudflare_request)
       = snd (checkRateLimit sample_world Map.empty ''login_unknown-ip'')
   \<and> snd (login_POST sample_platform sample_world sample_store Map.empty bare_login)
       = snd (checkRateLimit sample_world Map.empty ''login_unknown-ip'')"
proof -
  have f: "header_value forwarded_request ''x-forwarded-for'' = Some ''203.0.113.7, 10.0.0.1''"
    by (simp add: header_value_def forwarded_request_def login_request_def)
  have t: "trim (first_part CHR '','' ''203.0.113.7, 10.0.0.1'') = ''203.0.113.7''"
    by (simp add: trim_def first_part_def is_space_def)
  have c: "header_value cloudflare_request ''x-forwarded-for'' = None"
      "header_value cloudflare_request ''cf-connecting-ip'' = Some ''198.51.100.2''"
    by (simp_all add: header_value_def cloudflare_request_def login_request_def)
  have t': "trim ''198.51.100.2'' = ''198.51.100.2''"
    by (simp add: trim_def is_space_def)
  show ?thesis
    using client_ip_and_login_identity
            [where request = forwarded_request and f = "''203.0.113.7, 10.0.0.1''"]
          client_ip_and_login_identity
            [where request = cloudflare_request and c = "''198.51.100.2''" and P = sample_platform
               and w = sample_world and findUnique = sample_store and limiters = Map.empty]
          client_ip_and_login_identity
            [where request = bare_login and P = sample_platform
               and w = sample_world and findUnique = sample_store and limiters = Map.empty]
          f t c t' bare_login_headers
    by simp
qed

section \<open>The login handler: when the rate limit answers\<close>







text \<open>Every limiter that \<^verbatim>\<open>checkRateLimit\<close> leaves behind allows five attempts per 60000 ms.\<close>

lemma drip_std:
  "bucketSize (drip w b) = bucketSize b" "tokensPerInterval (drip w b) = tokensPerInterval b"
  "interval (drip w b) = interval b"
  by (simp_all add: drip_def Let_def)

lemma removeTokens_keeps_std:
  "std_limiter l \<Longrightarrow> std_limiter (snd (RateLimiter_removeTokens w l 1))"
  by (auto simp: RateLimiter_removeTokens_def TokenBucket_removeTokens_def Let_def std_limiter_def
                 drip_std split: prod.splits removal.splits if_splits)

lemma checkRateLimit_keeps_std:
  assumes "\<And>i l. limiters i = Some l \<Longrightarrow> std_limiter l"
    and "snd (checkRateLimit w limiters ident) i = Some l"
  shows "std_limiter l"
proof (cases "i = ident")
  case False
  then show ?thesis using assms checkRateLimit_other [of i ident w limiters] by simp
next
  case True
  let ?l0 = "case limiters ident of
               None \<Rightarrow> new_RateLimiter w ATTEMPTS_PER_MINUTE WINDOW_SIZE_MS True | Some l \<Rightarrow> l"
  have "std_limiter ?l0" using assms(1) fresh_limiter(1) by (simp split: option.splits)
  then have "std_limiter (snd (RateLimiter_removeTokens w ?l0 1))" by (rule removeTokens_keeps_std)
  moreover have "snd (checkRateLimit w limiters ident) ident = Some (snd (RateLimiter_removeTokens w ?l0 1))"
    by (simp add: checkRateLimit_def Let_def split: prod.splits removal.splits)
  ultimately show ?thesis using assms(2) True by simp
qed
















end
